theory Spec2Isabelle
  imports
    Complex_Main
    "HOL-Library.Char_ord"
    "HOL-Library.List_Lexorder"
    "HOL-Library.Multiset"
    "HOL-Library.Sublist"
begin

section \<open>Tool-usage evaluators: data model\<close>

text \<open>
  Embedding of \<^verbatim>\<open>langchain_benchmarks/tool_usage/evaluators.py\<close>.

  Python dictionaries with a fixed set of keys are records of optional fields: a key that
  is absent is \<open>None\<close>. Every exception the module can raise is a value of \<open>py_error\<close>,
  and a function that may raise returns \<open>py_error + 'a\<close> with \<open>Inl\<close> the exception.
  Tool identifiers are Python strings; \<^verbatim>\<open>sorted\<close> orders them lexicographically by code
  point, which is the lexicographic order on \<open>char list\<close> used here.
\<close>

datatype py_error =
    ValueError string
  | KeyError string
  | ZeroDivisionError
  | IndexError
  | TypeError
  | ExternalError string

text \<open>
  A score is an \<^verbatim>\<open>int\<close>, a \<^verbatim>\<open>float\<close> or \<^verbatim>\<open>None\<close>. A finite float is represented by
  the rational number it denotes.
\<close>

datatype py_score = PyInt int | PyFloat rat | PyNone

type_synonym run_id = nat

record EvaluationResult =
  key :: string
  score :: py_score
  comment :: "string option"
  source_run_id :: "run_id option"

record AgentAction =
  tool :: string
  tool_input :: string
  log :: string

record ('obs, 'st) run_outputs =
  intermediate_steps :: "(AgentAction \<times> 'obs) list option"
  actual_steps :: "string list option"
  ro_state :: "'st option"
  final_output :: "string option"

record 'st example_outputs =
  expected_steps :: "string list option"
  order_matters :: "bool option"
  eo_state :: "'st option"
  reference :: "string option"

record run_inputs =
  question :: "string option"

text \<open>
  A call made under \<^verbatim>\<open>collect_runs()\<close> either raises or returns its value together
  with the identifiers of the runs the callback traced.
\<close>

type_synonym 'a traced = "py_error + ('a \<times> run_id list)"

type_synonym qa_results = "string \<rightharpoonup> py_score"

text \<open>
  The judge held by the comparator. \<open>QAMathEvaluator\<close> carries its \<^verbatim>\<open>eval_chain\<close>
  (prompt template piped into the chat model), a function of the \<^verbatim>\<open>answer\<close> and
  \<^verbatim>\<open>result\<close> template variables to the reply's \<^verbatim>\<open>content\<close>. Any other
  \<^verbatim>\<open>StringEvaluator\<close> is the external grader returned by \<^verbatim>\<open>load_evaluator\<close>, a function
  of prediction, reference and input.
\<close>

datatype StringEvaluator =
    QAMathEvaluator "string \<Rightarrow> string \<Rightarrow> string traced"
  | LoadedEvaluator "string \<Rightarrow> string \<Rightarrow> string \<Rightarrow> qa_results traced"

section \<open>QAMathEvaluator\<close>

definition startswith :: "string \<Rightarrow> string \<Rightarrow> bool" where
  "startswith s p = (take (length p) s = p)"

text \<open>The properties \<^verbatim>\<open>requires_reference\<close> and \<^verbatim>\<open>requires_input\<close> of \<open>QAMathEvaluator\<close>.\<close>

definition requires_reference :: bool where
  "requires_reference = True"

definition requires_input :: bool where
  "requires_input = False"

text \<open>\<^verbatim>\<open>QAMathEvaluator._evaluate_strings\<close> (lines 53-67).\<close>

definition evaluate_strings_QAMath ::
  "(string \<Rightarrow> string \<Rightarrow> string traced) \<Rightarrow> string \<Rightarrow> string \<Rightarrow> qa_results traced" where
  "evaluate_strings_QAMath eval_chain prediction reference' =
     (case eval_chain reference' prediction of
        Inl e \<Rightarrow> Inl e
      | Inr (content, traced_runs) \<Rightarrow>
          if startswith content ''CORRECT''
          then Inr ([''score'' \<mapsto> PyInt 1], traced_runs)
          else Inr ([''score'' \<mapsto> PyInt 0], traced_runs))"

section \<open>compare\_outputs\<close>

definition missing_steps_message :: string where
  "missing_steps_message =
     ''Please make sure that your agent outputs '' @ [CHR 0x27] @ ''intermediate_steps or ''
       @ [CHR 0x27] @ ''actual_steps'' @ [CHR 0x27]"

text \<open>Lines 78-91: the actual step sequence, or the \<^verbatim>\<open>ValueError\<close>.\<close>

definition extract_actual_steps :: "('obs, 'st) run_outputs \<Rightarrow> py_error + string list" where
  "extract_actual_steps run_outputs =
     (case intermediate_steps run_outputs of
        Some steps \<Rightarrow> Inr (map (\<lambda>(action, _). tool action) steps)
      | None \<Rightarrow>
          (case actual_steps run_outputs of
             Some steps \<Rightarrow> Inr steps
           | None \<Rightarrow> Inl (ValueError missing_steps_message)))"

text \<open>Line 95: \<^verbatim>\<open>example_outputs.get("order_matters", True)\<close>.\<close>

definition resolved_order_matters :: "'st example_outputs \<Rightarrow> bool" where
  "resolved_order_matters example_outputs =
     (case order_matters example_outputs of None \<Rightarrow> True | Some b \<Rightarrow> b)"

text \<open>Lines 97-104.\<close>

definition trajectory_score :: "bool \<Rightarrow> string list \<Rightarrow> string list \<Rightarrow> int" where
  "trajectory_score order_matters' actual expected =
     (if order_matters' then of_bool (actual = expected)
      else of_bool (sort actual = sort expected))"

subsection \<open>True division of two lengths\<close>

text \<open>
  Line 107 divides two \<^verbatim>\<open>int\<close>s with \<^verbatim>\<open>/\<close>. Python raises \<^verbatim>\<open>ZeroDivisionError\<close> for a
  zero divisor and otherwise returns the float nearest to the quotient, ties going to the
  even significand. A list has fewer than \<open>2^63\<close> elements, so the quotient of two
  lengths is zero or lies between \<open>2^-63\<close> and \<open>2^63\<close>: there a float has 53 significant
  bits and neither overflow nor gradual underflow occurs. The rounding below is the one to
  53 significant bits.

  \<open>bit_length\<close> is \<^verbatim>\<open>int.bit_length\<close>.
\<close>

fun bit_length :: "nat \<Rightarrow> nat" where
  "bit_length n = (if n = 0 then 0 else Suc (bit_length (n div 2)))"

declare bit_length.simps [simp del]

text \<open>
  The binary exponent of the quotient \<open>n / m\<close> of two positive numbers: the difference
  of the bit lengths, lowered by one when the quotient is below that power of two.
\<close>

definition quotient_exponent :: "nat \<Rightarrow> nat \<Rightarrow> int" where
  "quotient_exponent n m =
     (let k = int (bit_length n) - int (bit_length m)
      in if rat_of_nat m * 2 powi k \<le> rat_of_nat n then k else k - 1)"

text \<open>The integer nearest to \<open>y\<close>, the even one of two equally near.\<close>

definition round_half_even :: "rat \<Rightarrow> int" where
  "round_half_even y =
     (let f = \<lfloor>y\<rfloor>; r = y - of_int f
      in if r < 1 / 2 then f
         else if 1 / 2 < r then f + 1
         else if even f then f else f + 1)"

text \<open>
  The quotient is scaled to a significand between \<open>2^52\<close> and \<open>2^53\<close>, the significand
  is rounded to an integer, and the result is scaled back.
\<close>

definition quotient_float :: "nat \<Rightarrow> nat \<Rightarrow> rat" where
  "quotient_float n m =
     (if n = 0 then 0
      else
        (let e = quotient_exponent n m - 52;
             mantissa = round_half_even (rat_of_nat n / rat_of_nat m / 2 powi e)
         in of_int mantissa * 2 powi e))"

definition true_divide :: "nat \<Rightarrow> nat \<Rightarrow> py_error + rat" where
  "true_divide n m = (if m = 0 then Inl ZeroDivisionError else Inr (quotient_float n m))"

text \<open>Line 107: \<^verbatim>\<open>len(actual_steps) / len(expected_steps)\<close>.\<close>

definition step_fraction :: "string list \<Rightarrow> string list \<Rightarrow> py_error + rat" where
  "step_fraction actual expected = true_divide (length actual) (length expected)"

definition str_bool :: "bool \<Rightarrow> string" where
  "str_bool b = (if b then ''True'' else ''False'')"

text \<open>Lines 110-120.\<close>

definition trajectory_results :: "bool \<Rightarrow> int \<Rightarrow> rat \<Rightarrow> EvaluationResult list" where
  "trajectory_results order_matters' tscore fraction =
     [\<lparr>key = ''Intermediate steps correctness'', score = PyInt tscore,
       comment = Some (''Order matters='' @ str_bool order_matters'), source_run_id = None\<rparr>,
      \<lparr>key = ''# steps / # expected steps'', score = PyFloat fraction,
       comment = None, source_run_id = None\<rparr>]"

text \<open>Lines 124-132.\<close>

definition state_results ::
  "('obs, 'st) run_outputs \<Rightarrow> 'st example_outputs \<Rightarrow> EvaluationResult list" where
  "state_results run_outputs example_outputs =
     (case ro_state run_outputs of
        None \<Rightarrow> []
      | Some state \<Rightarrow>
          (case eo_state example_outputs of
             None \<Rightarrow> []
           | Some example_state \<Rightarrow>
               [\<lparr>key = ''Correct Final State'', score = PyInt (of_bool (state = example_state)),
                 comment = None, source_run_id = None\<rparr>]))"

text \<open>
  Lines 137-147: the call of the judge. Keyword arguments are evaluated left to right, so
  \<^verbatim>\<open>example_outputs["reference"]\<close> is read before \<^verbatim>\<open>run_inputs["question"]\<close>.
  \<^verbatim>\<open>evaluate_strings\<close> is the library's public wrapper of \<^verbatim>\<open>_evaluate_strings\<close>.
\<close>

definition call_judge ::
  "StringEvaluator \<Rightarrow> string \<Rightarrow> 'st example_outputs \<Rightarrow> run_inputs \<Rightarrow> qa_results traced" where
  "call_judge qa_evaluator output' example_outputs run_inputs' =
     (case qa_evaluator of
        QAMathEvaluator eval_chain \<Rightarrow>
          (case reference example_outputs of
             None \<Rightarrow> Inl (KeyError ''reference'')
           | Some ref \<Rightarrow> evaluate_strings_QAMath eval_chain output' ref)
      | LoadedEvaluator evaluate_strings \<Rightarrow>
          (case reference example_outputs of
             None \<Rightarrow> Inl (KeyError ''reference'')
           | Some ref \<Rightarrow>
               (case question run_inputs' of
                  None \<Rightarrow> Inl (KeyError ''question'')
                | Some q \<Rightarrow> evaluate_strings output' ref q)))"

text \<open>
  Lines 134-154: nothing is added unless the run has an \<^verbatim>\<open>output\<close> and a judge was
  given; \<^verbatim>\<open>qa_results["score"]\<close> and \<^verbatim>\<open>cb.traced_runs[0]\<close> raise when missing.
\<close>

definition output_results ::
  "('obs, 'st) run_outputs \<Rightarrow> 'st example_outputs \<Rightarrow> run_inputs \<Rightarrow> StringEvaluator option
     \<Rightarrow> py_error + EvaluationResult list" where
  "output_results run_outputs example_outputs run_inputs' qa_evaluator =
     (case final_output run_outputs of
        None \<Rightarrow> Inr []
      | Some output' \<Rightarrow>
          (case qa_evaluator of
             None \<Rightarrow> Inr []
           | Some judge \<Rightarrow>
               (case call_judge judge output' example_outputs run_inputs' of
                  Inl e \<Rightarrow> Inl e
                | Inr (qa_res, traced_runs) \<Rightarrow>
                    (case qa_res ''score'' of
                       None \<Rightarrow> Inl (KeyError ''score'')
                     | Some s \<Rightarrow>
                         (case traced_runs of
                            [] \<Rightarrow> Inl IndexError
                          | r # _ \<Rightarrow>
                              Inr [\<lparr>key = ''correctness'', score = s, comment = None,
                                    source_run_id = Some r\<rparr>])))))"

definition compare_outputs ::
  "('obs, 'st) run_outputs \<Rightarrow> 'st example_outputs \<Rightarrow> run_inputs \<Rightarrow> StringEvaluator option
     \<Rightarrow> py_error + EvaluationResult list" where
  "compare_outputs run_outputs example_outputs run_inputs' qa_evaluator =
     (case extract_actual_steps run_outputs of
        Inl e \<Rightarrow> Inl e
      | Inr actual \<Rightarrow>
          (case expected_steps example_outputs of
             None \<Rightarrow> Inl (KeyError ''expected_steps'')
           | Some expected \<Rightarrow>
               (let order_matters' = resolved_order_matters example_outputs;
                    tscore = trajectory_score order_matters' actual expected
                in case step_fraction actual expected of
                     Inl e \<Rightarrow> Inl e
                   | Inr fraction \<Rightarrow>
                       (let results = trajectory_results order_matters' tscore fraction
                                        @ state_results run_outputs example_outputs
                        in case output_results run_outputs example_outputs run_inputs'
                                  qa_evaluator of
                             Inl e \<Rightarrow> Inl e
                           | Inr rs \<Rightarrow> Inr (results @ rs)))))"

section \<open>AgentTrajectoryEvaluator\<close>

text \<open>
  What the constructor takes from outside the module: the default \<^verbatim>\<open>ChatOpenAI(...)\<close>
  client, \<^verbatim>\<open>load_evaluator(EvaluatorType.QA, llm=..., prompt=...)\<close>, the prompt
  \<^verbatim>\<open>QA_TEMPLATE_FOR_MULTIVERSE_MATH\<close>, and the chain
  \<^verbatim>\<open>QA_TEMPLATE_FOR_MULTIVERSE_MATH_WITHOUT_QUESTION | chat_model\<close>.
\<close>

record ('llm, 'prompt) externals =
  ChatOpenAI :: "py_error + 'llm"
  load_evaluator ::
    "'llm \<Rightarrow> 'prompt option \<Rightarrow> py_error + (string \<Rightarrow> string \<Rightarrow> string \<Rightarrow> qa_results traced)"
  QA_TEMPLATE_FOR_MULTIVERSE_MATH :: 'prompt
  without_question_chain :: "'llm \<Rightarrow> string \<Rightarrow> string \<Rightarrow> string traced"

record AgentTrajectoryEvaluator =
  qa_evaluator :: "StringEvaluator option"
  output_evaluation :: string

definition none_with_llm_message :: string where
  "none_with_llm_message =
     ''If output_evaluation is '' @ [CHR 0x27] @ ''none'' @ [CHR 0x27]
       @ '', then eval_llm must be None''"

definition unsupported_mode_message :: "string \<Rightarrow> string" where
  "unsupported_mode_message mode =
     ''output_evaluation must be one of '' @ [CHR 0x27] @ ''qa'' @ [CHR 0x27] @ '' or ''
       @ [CHR 0x27] @ ''none'' @ [CHR 0x27] @ '', got '' @ mode"

text \<open>\<^verbatim>\<open>AgentTrajectoryEvaluator.__init__\<close> (lines 162-199).\<close>

definition init ::
  "('llm, 'prompt) externals \<Rightarrow> 'llm option \<Rightarrow> string \<Rightarrow> py_error + AgentTrajectoryEvaluator" where
  "init ext eval_llm output_evaluation' =
     (if output_evaluation' = ''none'' then
        (case eval_llm of
           Some _ \<Rightarrow> Inl (ValueError none_with_llm_message)
         | None \<Rightarrow> Inr \<lparr>qa_evaluator = None, output_evaluation = output_evaluation'\<rparr>)
      else
        (case (case eval_llm of Some m \<Rightarrow> Inr m | None \<Rightarrow> ChatOpenAI ext) of
           Inl e \<Rightarrow> Inl e
         | Inr llm \<Rightarrow>
             (if output_evaluation' = ''qa'' then
                (case load_evaluator ext llm None of
                   Inl e \<Rightarrow> Inl e
                 | Inr ev \<Rightarrow>
                     Inr \<lparr>qa_evaluator = Some (LoadedEvaluator ev),
                          output_evaluation = output_evaluation'\<rparr>)
              else if output_evaluation' = ''qa_math'' then
                (case load_evaluator ext llm (Some (QA_TEMPLATE_FOR_MULTIVERSE_MATH ext)) of
                   Inl e \<Rightarrow> Inl e
                 | Inr ev \<Rightarrow>
                     Inr \<lparr>qa_evaluator = Some (LoadedEvaluator ev),
                          output_evaluation = output_evaluation'\<rparr>)
              else if output_evaluation' = ''qa_math_without_question'' then
                Inr \<lparr>qa_evaluator = Some (QAMathEvaluator (without_question_chain ext llm)),
                     output_evaluation = output_evaluation'\<rparr>
              else Inl (ValueError (unsupported_mode_message output_evaluation')))))"

record ('obs, 'st) Run =
  outputs :: "('obs, 'st) run_outputs option"
  inputs :: run_inputs

record 'st Example =
  example_outputs_of :: "'st example_outputs option"

definition missing_expected_message :: string where
  "missing_expected_message =
     ''Please make sure that your dataset contains '' @ [CHR 0x27] @ ''expected_steps''
       @ [CHR 0x27]"

text \<open>
  \<^verbatim>\<open>AgentTrajectoryEvaluator.evaluate_run\<close> (lines 201-231). \<^verbatim>\<open>Example.outputs\<close> is an
  optional dictionary in the tracing library; a membership test on \<^verbatim>\<open>None\<close> raises
  \<^verbatim>\<open>TypeError\<close>.
\<close>

definition evaluate_run ::
  "AgentTrajectoryEvaluator \<Rightarrow> ('obs, 'st) Run \<Rightarrow> 'st Example option
     \<Rightarrow> py_error + EvaluationResult list" where
  "evaluate_run self run example =
     (case outputs run of
        None \<Rightarrow> Inl (ValueError ''Run outputs cannot be None'')
      | Some run_outputs \<Rightarrow>
          (case example of
             None \<Rightarrow> Inl (ValueError ''Example cannot be None'')
           | Some ex \<Rightarrow>
               if intermediate_steps run_outputs = None \<and> actual_steps run_outputs = None
               then Inl (ValueError missing_steps_message)
               else
                 (case example_outputs_of ex of
                    None \<Rightarrow> Inl TypeError
                  | Some example_outputs \<Rightarrow>
                      if expected_steps example_outputs = None
                      then Inl (ValueError missing_expected_message)
                      else compare_outputs run_outputs example_outputs (inputs run)
                             (qa_evaluator self))))"

section \<open>Concrete runs and examples\<close>

definition run_ba :: "(unit, unit) run_outputs" where
  "run_ba = \<lparr>intermediate_steps = None, actual_steps = Some [''b'', ''a''],
             ro_state = None, final_output = None\<rparr>"

definition example_ab_unordered :: "unit example_outputs" where
  "example_ab_unordered = \<lparr>expected_steps = Some [''a'', ''b''], order_matters = Some False,
             eo_state = None, reference = None\<rparr>"

definition no_inputs :: run_inputs where
  "no_inputs = \<lparr>question = None\<rparr>"

definition run_three :: "(unit, unit) run_outputs" where
  "run_three = \<lparr>intermediate_steps = None, actual_steps = Some [''a'', ''b'', ''a''],
             ro_state = None, final_output = None\<rparr>"

definition stub_chain :: "string \<Rightarrow> string \<Rightarrow> string \<Rightarrow> string traced" where
  "stub_chain reply answer result = Inr (reply, [7])"

definition run_a :: "(unit, unit) run_outputs" where
  "run_a = \<lparr>intermediate_steps = None, actual_steps = Some [''a''],
             ro_state = None, final_output = None\<rparr>"

definition example_empty :: "unit example_outputs" where
  "example_empty = \<lparr>expected_steps = Some [], order_matters = None,
             eo_state = None, reference = None\<rparr>"

definition run_no_steps :: "(unit, unit) run_outputs" where
  "run_no_steps = \<lparr>intermediate_steps = None, actual_steps = None,
             ro_state = None, final_output = Some ''42''\<rparr>"

definition judge_none :: AgentTrajectoryEvaluator where
  "judge_none = \<lparr>qa_evaluator = None, output_evaluation = ''none''\<rparr>"

definition run_with_output :: "(unit, unit) run_outputs" where
  "run_with_output = \<lparr>intermediate_steps = None, actual_steps = Some [''a'', ''b''],
             ro_state = None, final_output = Some ''42''\<rparr>"

definition example_with_reference :: "unit example_outputs" where
  "example_with_reference = \<lparr>expected_steps = Some [''a'', ''b''], order_matters = None,
             eo_state = None, reference = Some ''42''\<rparr>"

definition inputs_with_question :: run_inputs where
  "inputs_with_question = \<lparr>question = Some ''what is 6 times 7?''\<rparr>"

definition stub_grader :: "string \<Rightarrow> string \<Rightarrow> string \<Rightarrow> qa_results traced" where
  "stub_grader prediction ref input =
     Inr ([''score'' \<mapsto> PyInt (of_bool (prediction = ref))], [length input])"

definition stub_externals :: "(unit, unit) externals" where
  "stub_externals =
     \<lparr>ChatOpenAI = Inl (ExternalError ''no API key''),
      load_evaluator = (\<lambda>_ _. Inr stub_grader),
      QA_TEMPLATE_FOR_MULTIVERSE_MATH = (),
      without_question_chain = (\<lambda>_. stub_chain ''CORRECT'')\<rparr>"

definition run_record :: "(unit, unit) Run" where
  "run_record = \<lparr>outputs = Some run_with_output, inputs = inputs_with_question\<rparr>"

definition example_record :: "unit Example" where
  "example_record = \<lparr>example_outputs_of = Some example_with_reference\<rparr>"

definition example_ab_ordered :: "unit example_outputs" where
  "example_ab_ordered = \<lparr>expected_steps = Some [''a'', ''b''], order_matters = Some True,
             eo_state = None, reference = None\<rparr>"

definition example_ab_default :: "unit example_outputs" where
  "example_ab_default = \<lparr>expected_steps = Some [''a'', ''b''], order_matters = None,
             eo_state = None, reference = None\<rparr>"

definition example_ba_unordered :: "unit example_outputs" where
  "example_ba_unordered = \<lparr>expected_steps = Some [''b'', ''a''], order_matters = Some False,
             eo_state = None, reference = None\<rparr>"

definition example_ba_default :: "unit example_outputs" where
  "example_ba_default = \<lparr>expected_steps = Some [''b'', ''a''], order_matters = None,
             eo_state = None, reference = None\<rparr>"

definition action_a :: AgentAction where
  "action_a = \<lparr>tool = ''a'', tool_input = ''1'', log = ''''\<rparr>"

definition action_b :: AgentAction where
  "action_b = \<lparr>tool = ''b'', tool_input = ''2'', log = ''''\<rparr>"

definition run_observed :: "(string, unit) run_outputs" where
  "run_observed = \<lparr>intermediate_steps = Some [(action_a, ''7''), (action_b, ''9'')],
             actual_steps = None, ro_state = None, final_output = None\<rparr>"

definition run_observed_otherwise :: "(string, unit) run_outputs" where
  "run_observed_otherwise =
     \<lparr>intermediate_steps = Some [(action_a, ''error''), (action_b, '''')],
      actual_steps = None, ro_state = None, final_output = None\<rparr>"

definition example_aba :: "unit example_outputs" where
  "example_aba = \<lparr>expected_steps = Some [''a'', ''b'', ''a''], order_matters = None,
             eo_state = None, reference = None\<rparr>"

section \<open>Shared lemmas\<close>

subsection \<open>The float of a quotient\<close>

lemma bit_length_bounds:
  "0 < n \<Longrightarrow> 2 ^ (bit_length n - 1) \<le> n \<and> n < 2 ^ bit_length n"
proof (induction n rule: bit_length.induct)
  case (1 n)
  show ?case
  proof (cases "n div 2 = 0")
    case True
    with 1 have "n = 1" by (simp add: div_eq_0_iff)
    then show ?thesis by (simp add: bit_length.simps)
  next
    case False
    with 1 have ih: "2 ^ (bit_length (n div 2) - 1) \<le> n div 2 \<and> n div 2 < 2 ^ bit_length (n div 2)"
      by simp
    from False have pos: "0 < bit_length (n div 2)"
      by (simp add: bit_length.simps)
    have b: "bit_length n = Suc (bit_length (n div 2))"
      using 1 by (simp add: bit_length.simps[of n])
    from pos obtain j where j: "bit_length (n div 2) = Suc j"
      by (cases "bit_length (n div 2)") auto
    from ih j have "2 ^ j \<le> n div 2" and "n div 2 < 2 ^ Suc j"
      by simp_all
    then have "2 * 2 ^ j \<le> n" and "n < 2 * 2 ^ Suc j"
      by arith+
    then show ?thesis
      by (simp add: b j)
  qed
qed

lemma pow2_less_mono: "(2::rat) powi a < 2 powi b \<Longrightarrow> a < b"
  by (metis linorder_not_less one_le_numeral power_int_increasing)

lemma quotient_exponent_bounds:
  assumes "0 < n" and "0 < m"
  shows "2 powi quotient_exponent n m \<le> rat_of_nat n / rat_of_nat m \<and>
         rat_of_nat n / rat_of_nat m < 2 powi (quotient_exponent n m + 1)"
proof -
  define k where "k = int (bit_length n) - int (bit_length m)"
  have pn: "0 < bit_length n" and pm: "0 < bit_length m"
    using assms by (simp_all add: bit_length.simps[of n] bit_length.simps[of m])
  from bit_length_bounds [OF assms(1)]
  have n1: "(2::rat) ^ (bit_length n - 1) \<le> of_nat n" and n2: "of_nat n < (2::rat) ^ bit_length n"
    by (metis of_nat_le_iff of_nat_numeral of_nat_power, metis of_nat_less_iff of_nat_numeral of_nat_power)
  from bit_length_bounds [OF assms(2)]
  have m1: "(2::rat) ^ (bit_length m - 1) \<le> of_nat m" and m2: "of_nat m < (2::rat) ^ bit_length m"
    by (metis of_nat_le_iff of_nat_numeral of_nat_power, metis of_nat_less_iff of_nat_numeral of_nat_power)
  have mpos: "0 < rat_of_nat m" using assms by simp
  have n1': "(2::rat) powi (int (bit_length n) - 1) \<le> of_nat n"
    using n1 pn by (simp add: power_int_def nat_diff_distrib')
  have m1': "(2::rat) powi (int (bit_length m) - 1) \<le> of_nat m"
    using m1 pm by (simp add: power_int_def nat_diff_distrib')
  have n2': "of_nat n < (2::rat) powi int (bit_length n)" using n2 by simp
  have m2': "of_nat m < (2::rat) powi int (bit_length m)" using m2 by simp
  have up: "rat_of_nat n < of_nat m * 2 powi (k + 1)"
  proof -
    have "(2::rat) powi int (bit_length n) = 2 powi (int (bit_length m) - 1) * 2 powi (k + 1)"
      using power_int_add [of "2::rat" "int (bit_length m) - 1" "k + 1"] by (simp add: k_def)
    also have "\<dots> \<le> of_nat m * 2 powi (k + 1)"
      using m1' by (intro mult_right_mono) simp_all
    finally have "(2::rat) powi int (bit_length n) \<le> of_nat m * 2 powi (k + 1)" .
    with n2' show ?thesis by (rule less_le_trans)
  qed
  have lo: "rat_of_nat m * 2 powi (k - 1) \<le> of_nat n"
  proof -
    have "rat_of_nat m * 2 powi (k - 1) \<le> 2 powi int (bit_length m) * 2 powi (k - 1)"
      using m2' by (intro mult_right_mono) simp_all
    also have "\<dots> = 2 powi (int (bit_length n) - 1)"
      using power_int_add [of "2::rat" "int (bit_length m)" "k - 1"] by (simp add: k_def)
    finally have "rat_of_nat m * 2 powi (k - 1) \<le> 2 powi (int (bit_length n) - 1)" .
    from this n1' show ?thesis by (rule order_trans)
  qed
  show ?thesis
  proof (cases "rat_of_nat m * 2 powi k \<le> rat_of_nat n")
    case True
    then have e: "quotient_exponent n m = k"
      by (simp add: quotient_exponent_def k_def)
    from True up mpos show ?thesis
      unfolding e by (simp add: pos_le_divide_eq pos_divide_less_eq mult.commute)
  next
    case False
    then have e: "quotient_exponent n m = k - 1"
      by (simp add: quotient_exponent_def k_def)
    from False lo mpos show ?thesis
      unfolding e by (simp add: pos_le_divide_eq pos_divide_less_eq mult.commute)
  qed
qed

lemma round_half_even_nearest:
  "\<bar>of_int (round_half_even y) - y\<bar> \<le> \<bar>of_int i - y\<bar>"
proof -
  define f where "f = \<lfloor>y\<rfloor>"
  define r where "r = y - of_int f"
  have r: "0 \<le> r" "r < 1" and y: "y = of_int f + r"
    unfolding r_def f_def by linarith+
  have rhe: "round_half_even y =
      (if r < 1 / 2 then f else if 1 / 2 < r then f + 1 else if even f then f else f + 1)"
    by (simp add: round_half_even_def Let_def f_def r_def)
  have "(round_half_even y = f \<and> r \<le> 1 / 2) \<or> (round_half_even y = f + 1 \<and> 1 / 2 \<le> r)"
    by (cases "r < 1 / 2"; cases "1 / 2 < r"; cases "even f"; simp add: rhe)
  then consider "round_half_even y = f" and "r \<le> 1 / 2"
    | "round_half_even y = f + 1" and "1 / 2 \<le> r"
    by blast
  then have d: "\<bar>of_int (round_half_even y) - y\<bar> = min r (1 - r)"
  proof cases
    case 1
    then show ?thesis using r by (simp add: y)
  next
    case 2
    then show ?thesis using r by (simp add: y)
  qed
  show ?thesis
  proof (cases "i \<le> f")
    case True
    then have "rat_of_int i \<le> of_int f" by simp
    then have "r \<le> \<bar>of_int i - y\<bar>" unfolding y by linarith
    with d show ?thesis by linarith
  next
    case False
    then have "f + 1 \<le> i" by simp
    then have "rat_of_int f + 1 \<le> of_int i" by (metis of_int_1 of_int_add of_int_le_iff)
    then have "1 - r \<le> \<bar>of_int i - y\<bar>" unfolding y by linarith
    with d show ?thesis by linarith
  qed
qed

lemma round_half_even_of_int [simp]: "round_half_even (of_int i) = i"
  by (simp add: round_half_even_def)

lemma round_half_even_mono:
  assumes "y \<le> y'"
  shows "round_half_even y \<le> round_half_even y'"
proof -
  have fl: "\<lfloor>y\<rfloor> \<le> \<lfloor>y'\<rfloor>" using assms by (rule floor_mono)
  have a: "round_half_even y \<le> \<lfloor>y\<rfloor> + 1"
    by (simp add: round_half_even_def Let_def)
  have b: "\<lfloor>y'\<rfloor> \<le> round_half_even y'"
    by (simp add: round_half_even_def Let_def)
  show ?thesis
  proof (cases "\<lfloor>y\<rfloor> = \<lfloor>y'\<rfloor>")
    case True
    with assms show ?thesis
      by (auto simp: round_half_even_def Let_def)
  next
    case False
    with fl a b show ?thesis by linarith
  qed
qed

lemma round_half_even_ge: "of_int i \<le> y \<Longrightarrow> i \<le> round_half_even y"
  using round_half_even_mono [of "of_int i" y] by simp

lemma round_half_even_le: "y \<le> of_int i \<Longrightarrow> round_half_even y \<le> i"
  using round_half_even_mono [of y "of_int i"] by simp

lemma quotient_float_positive:
  assumes "0 < n" and "0 < m"
  obtains e mantissa y where
    "e = quotient_exponent n m - 52"
    "y = rat_of_nat n / rat_of_nat m / 2 powi e"
    "mantissa = round_half_even y"
    "quotient_float n m = of_int mantissa * 2 powi e"
    "rat_of_nat n / rat_of_nat m = y * 2 powi e"
    "2 ^ 52 \<le> y" "y < 2 ^ 53" "2 ^ 52 \<le> mantissa" "mantissa \<le> 2 ^ 53"
proof -
  define e where "e = quotient_exponent n m - 52"
  define y where "y = rat_of_nat n / rat_of_nat m / 2 powi e"
  define mantissa where "mantissa = round_half_even y"
  have P: "(0::rat) < 2 powi e" by simp
  have x: "quotient_float n m = of_int mantissa * 2 powi e"
    using assms by (simp add: quotient_float_def Let_def e_def y_def mantissa_def)
  have q: "rat_of_nat n / rat_of_nat m = y * 2 powi e"
    by (simp add: y_def)
  have lo: "(2::rat) powi (e + 52) = 2 powi e * 2 ^ 52"
    using power_int_add [of "2::rat" e 52] by simp
  have hi: "(2::rat) powi (e + 53) = 2 powi e * 2 ^ 53"
    using power_int_add [of "2::rat" e 53] by simp
  have e52: "e + 52 = quotient_exponent n m" and e53: "e + 53 = quotient_exponent n m + 1"
    by (simp_all add: e_def)
  from quotient_exponent_bounds [OF assms]
  have "2 powi (e + 52) \<le> y * 2 powi e" and "y * 2 powi e < 2 powi (e + 53)"
    unfolding e52 e53 q by blast+
  then have y1: "2 ^ 52 \<le> y" and y2: "y < 2 ^ 53"
    using P unfolding lo hi by (simp_all add: mult.commute)
  have "rat_of_int (2 ^ 52) \<le> y" and "y \<le> rat_of_int (2 ^ 53)"
    using y1 y2 by simp_all
  then have "2 ^ 52 \<le> mantissa" and "mantissa \<le> 2 ^ 53"
    unfolding mantissa_def by (simp_all only: round_half_even_ge round_half_even_le)
  with that [OF e_def y_def mantissa_def x q y1 y2] show ?thesis
    by blast
qed

lemma quotient_float_nonneg: "0 \<le> quotient_float n m"
  by (simp add: quotient_float_def Let_def round_half_even_ge)

lemma quotient_float_nearest:
  assumes "0 < m" and "\<bar>k\<bar> < 2 ^ 53"
  shows "\<bar>quotient_float n m - rat_of_nat n / rat_of_nat m\<bar>
           \<le> \<bar>of_int k * 2 powi j - rat_of_nat n / rat_of_nat m\<bar>"
proof (cases "n = 0")
  case True
  then show ?thesis by (simp add: quotient_float_def)
next
  case False
  then have "0 < n" by simp
  from this assms(1) obtain e mantissa y where
    mantissa: "mantissa = round_half_even y"
    and x: "quotient_float n m = of_int mantissa * 2 powi e"
    and q: "rat_of_nat n / rat_of_nat m = y * 2 powi e"
    and y1: "2 ^ 52 \<le> y" and y2: "y < 2 ^ 53"
    by (rule quotient_float_positive)
  define P :: rat where "P = 2 powi e"
  define d where "d = rat_of_int k * 2 powi j"
  have P: "0 < P" by (simp add: P_def)
  have scale: "\<bar>a * P - y * P\<bar> = \<bar>a - y\<bar> * P" for a
    using P by (simp add: abs_mult flip: left_diff_distrib)
  have near: "\<bar>of_int mantissa - y\<bar> * P \<le> \<bar>of_int i - y\<bar> * P" for i
    using P round_half_even_nearest [of y i] by (simp add: mantissa)
  have lhs: "\<bar>quotient_float n m - rat_of_nat n / rat_of_nat m\<bar> = \<bar>of_int mantissa - y\<bar> * P"
    unfolding x q P_def [symmetric] by (rule scale)
  consider "d \<le> 2 ^ 52 * P" | "2 ^ 53 * P \<le> d" | "2 ^ 52 * P < d" and "d < 2 ^ 53 * P"
    by linarith
  then have "\<bar>of_int mantissa - y\<bar> * P \<le> \<bar>d - y * P\<bar>"
  proof cases
    case 1
    have "\<bar>of_int mantissa - y\<bar> * P \<le> \<bar>of_int (2 ^ 52) - y\<bar> * P"
      by (rule near)
    also have "\<dots> = y * P - 2 ^ 52 * P"
      using y1 by (simp add: left_diff_distrib)
    also have "\<dots> \<le> \<bar>d - y * P\<bar>"
      using 1 by linarith
    finally show ?thesis .
  next
    case 2
    have "\<bar>of_int mantissa - y\<bar> * P \<le> \<bar>of_int (2 ^ 53) - y\<bar> * P"
      by (rule near)
    also have "\<dots> = 2 ^ 53 * P - y * P"
      using y2 by (simp add: left_diff_distrib)
    also have "\<dots> \<le> \<bar>d - y * P\<bar>"
      using 2 by linarith
    finally show ?thesis .
  next
    case 3
    from 3(1) P have dpos: "0 < d"
      by (meson less_trans mult_pos_pos zero_less_numeral zero_less_power)
    have "(0::rat) < 2 powi j" by simp
    with dpos have kpos: "0 < k"
      by (simp add: d_def zero_less_mult_iff not_less [symmetric] less_imp_le)
    have "e \<le> j"
    proof (rule ccontr)
      assume "\<not> e \<le> j"
      then have "j + 1 \<le> e" by simp
      then have "(2::rat) powi (j + 1) \<le> 2 powi e"
        by (intro power_int_increasing) simp_all
      then have j: "2 * (2::rat) powi j \<le> P"
        using power_int_add [of "2::rat" j 1] by (simp add: P_def mult.commute)
      have "rat_of_int k \<le> 2 ^ 53"
        using assms(2) by (metis abs_le_D1 less_imp_le of_int_le_iff of_int_numeral of_int_power)
      then have "d \<le> 2 ^ 53 * 2 powi j"
        unfolding d_def by (intro mult_right_mono) simp_all
      also have "\<dots> = 2 ^ 52 * (2 * 2 powi j)" by simp
      also have "\<dots> \<le> 2 ^ 52 * P"
        using j by (intro mult_left_mono) simp_all
      finally show False using 3(1) by simp
    qed
    then obtain t where t: "j = e + int t"
      by (metis zle_iff_zadd)
    have "(2::rat) powi j = 2 powi e * 2 ^ t"
      using power_int_add [of "2::rat" e "int t"] by (simp add: t)
    then have "d = of_int (k * 2 ^ t) * P"
      by (simp add: d_def P_def)
    then have "\<bar>d - y * P\<bar> = \<bar>of_int (k * 2 ^ t) - y\<bar> * P"
      by (simp only: scale)
    with near [of "k * 2 ^ t"] show ?thesis by simp
  qed
  with lhs show ?thesis
    by (simp add: d_def q P_def)
qed

lemma quotient_float_representable:
  assumes "0 < m"
  shows "\<exists>k j. \<bar>k\<bar> < 2 ^ 53 \<and> quotient_float n m = of_int k * 2 powi j"
proof (cases "n = 0")
  case True
  then have "\<bar>0::int\<bar> < 2 ^ 53 \<and> quotient_float n m = of_int 0 * 2 powi 0"
    by (simp add: quotient_float_def)
  then show ?thesis by blast
next
  case False
  then have "0 < n" by simp
  from this assms obtain e mantissa where
    x: "quotient_float n m = of_int mantissa * 2 powi e"
    and m1: "2 ^ 52 \<le> mantissa" and m2: "mantissa \<le> 2 ^ 53"
    by (rule quotient_float_positive)
  show ?thesis
  proof (cases "mantissa = 2 ^ 53")
    case True
    have "(2::rat) powi (e + 1) = 2 powi e * 2"
      using power_int_add [of "2::rat" e 1] by simp
    then have "quotient_float n m = of_int (2 ^ 52) * 2 powi (e + 1)"
      by (simp add: x True)
    moreover have "\<bar>2 ^ 52 :: int\<bar> < 2 ^ 53" by simp
    ultimately show ?thesis by blast
  next
    case False
    with m1 m2 have "\<bar>mantissa\<bar> < 2 ^ 53" by simp
    with x show ?thesis by blast
  qed
qed

lemma quotient_float_exact:
  assumes "0 < m" and "\<bar>k\<bar> < 2 ^ 53" and "rat_of_nat n / rat_of_nat m = of_int k * 2 powi j"
  shows "quotient_float n m = rat_of_nat n / rat_of_nat m"
  using quotient_float_nearest [OF assms(1,2), of n j] by (simp add: assms(3))

lemma quotient_float_error:
  assumes "0 < m"
  shows "\<bar>quotient_float n m - rat_of_nat n / rat_of_nat m\<bar>
           \<le> rat_of_nat n / rat_of_nat m / 2 ^ 53"
proof (cases "n = 0")
  case True
  then show ?thesis by (simp add: quotient_float_def)
next
  case False
  then have "0 < n" by simp
  from this assms obtain e mantissa y where
    mantissa: "mantissa = round_half_even y"
    and x: "quotient_float n m = of_int mantissa * 2 powi e"
    and q: "rat_of_nat n / rat_of_nat m = y * 2 powi e"
    and y1: "2 ^ 52 \<le> y"
    by (rule quotient_float_positive)
  have P: "(0::rat) < 2 powi e" by simp
  have "\<bar>of_int mantissa - y\<bar> \<le> \<bar>of_int \<lfloor>y\<rfloor> - y\<bar>"
    and "\<bar>of_int mantissa - y\<bar> \<le> \<bar>of_int (\<lfloor>y\<rfloor> + 1) - y\<bar>"
    unfolding mantissa by (rule round_half_even_nearest)+
  then have "\<bar>of_int mantissa - y\<bar> \<le> 1 / 2"
    by (simp add: abs_if split: if_splits) linarith+
  also have "\<dots> \<le> y / 2 ^ 53"
    using y1 by simp
  finally have "\<bar>of_int mantissa - y\<bar> * 2 powi e \<le> y / 2 ^ 53 * 2 powi e"
    using P by (intro mult_right_mono) simp_all
  moreover have "\<bar>of_int mantissa * 2 powi e - y * 2 powi e\<bar> = \<bar>of_int mantissa - y\<bar> * 2 powi e"
    using P by (simp add: abs_mult flip: left_diff_distrib)
  ultimately show ?thesis
    by (simp add: x q)
qed

lemma quotient_float_mono:
  assumes "0 < m" and "0 < m'" and "rat_of_nat n / rat_of_nat m \<le> rat_of_nat n' / rat_of_nat m'"
  shows "quotient_float n m \<le> quotient_float n' m'"
proof (cases "n = 0")
  case True
  then have "quotient_float n m = 0"
    by (simp add: quotient_float_def)
  then show ?thesis
    by (simp add: quotient_float_nonneg)
next
  case False
  then have n: "0 < n" by simp
  with assms have "0 < rat_of_nat n' / rat_of_nat m'"
    by (meson divide_pos_pos less_le_trans of_nat_0_less_iff)
  with assms(2) have n': "0 < n'"
    by (metis divide_eq_0_iff less_irrefl of_nat_0 neq0_conv)
  from n assms(1) obtain e mantissa y where
    e: "e = quotient_exponent n m - 52"
    and mantissa: "mantissa = round_half_even y"
    and x: "quotient_float n m = of_int mantissa * 2 powi e"
    and q: "rat_of_nat n / rat_of_nat m = y * 2 powi e"
    and y1: "2 ^ 52 \<le> y" and m2: "mantissa \<le> 2 ^ 53"
    by (rule quotient_float_positive)
  from n' assms(2) obtain e' mantissa' y' where
    e': "e' = quotient_exponent n' m' - 52"
    and mantissa': "mantissa' = round_half_even y'"
    and x': "quotient_float n' m' = of_int mantissa' * 2 powi e'"
    and q': "rat_of_nat n' / rat_of_nat m' = y' * 2 powi e'"
    and y2': "y' < 2 ^ 53" and m1': "2 ^ 52 \<le> mantissa'"
    by (rule quotient_float_positive)
  have P: "(0::rat) < 2 powi e" and P': "(0::rat) < 2 powi e'" by simp_all
  have "2 ^ 52 * (2::rat) powi e \<le> y * 2 powi e"
    using y1 P by (intro mult_right_mono) simp_all
  also have "\<dots> \<le> y' * 2 powi e'"
    using assms(3) by (simp add: q q')
  also have "\<dots> < 2 ^ 53 * 2 powi e'"
    using y2' P' by (intro mult_strict_right_mono) simp_all
  finally have "(2::rat) powi (e + 52) < 2 powi (e' + 53)"
    using power_int_add [of "2::rat" e 52] power_int_add [of "2::rat" e' 53]
    by (simp add: mult.commute)
  then have "e + 52 < e' + 53" by (rule pow2_less_mono)
  then consider "e = e'" | "e + 1 \<le> e'" by linarith
  then show ?thesis
  proof cases
    case 1
    from assms(3) P have "y \<le> y'"
      by (simp add: q q' 1)
    then have "mantissa \<le> mantissa'"
      unfolding mantissa mantissa' by (rule round_half_even_mono)
    then have "rat_of_int mantissa * 2 powi e \<le> of_int mantissa' * 2 powi e"
      using P by (intro mult_right_mono) simp_all
    then show ?thesis by (simp add: x x' 1)
  next
    case 2
    have "rat_of_int mantissa \<le> 2 ^ 53"
      using m2 by (metis of_int_le_iff of_int_numeral of_int_power)
    then have "rat_of_int mantissa * 2 powi e \<le> 2 ^ 53 * 2 powi e"
      using P by (intro mult_right_mono) simp_all
    also have "\<dots> = 2 ^ 52 * 2 powi (e + 1)"
      using power_int_add [of "2::rat" e 1] by simp
    also have "\<dots> \<le> 2 ^ 52 * 2 powi e'"
      using 2 by (intro mult_left_mono power_int_increasing) simp_all
    also have "\<dots> \<le> rat_of_int mantissa' * 2 powi e'"
    proof -
      have "(2::rat) ^ 52 \<le> rat_of_int mantissa'"
        using m1' by (metis of_int_le_iff of_int_numeral of_int_power)
      then show ?thesis using P' by (intro mult_right_mono) simp_all
    qed
    finally show ?thesis by (simp add: x x')
  qed
qed

lemma round_half_even_tie:
  assumes "i \<noteq> round_half_even y"
    and "\<bar>of_int i - y\<bar> = \<bar>of_int (round_half_even y) - y\<bar>"
  shows "even (round_half_even y)"
proof -
  define f where "f = \<lfloor>y\<rfloor>"
  define r where "r = y - of_int f"
  have r: "0 \<le> r" "r < 1" and y: "y = of_int f + r"
    unfolding r_def f_def by linarith+
  have rhe: "round_half_even y =
      (if r < 1 / 2 then f else if 1 / 2 < r then f + 1 else if even f then f else f + 1)"
    by (simp add: round_half_even_def Let_def f_def r_def)
  have far: "1 - r \<le> \<bar>of_int i - y\<bar>" if "f < i"
  proof -
    from that have "rat_of_int f + 1 \<le> of_int i"
      by (metis of_int_1 of_int_add of_int_le_iff zless_imp_add1_zle)
    then show ?thesis unfolding y by linarith
  qed
  have far': "1 + r \<le> \<bar>of_int i - y\<bar>" if "i < f"
  proof -
    from that have "rat_of_int i + 1 \<le> of_int f"
      by (metis of_int_1 of_int_add of_int_le_iff zless_imp_add1_zle)
    then show ?thesis unfolding y by linarith
  qed
  have far'': "2 - r \<le> \<bar>of_int i - y\<bar>" if "f + 1 < i"
  proof -
    from that have "rat_of_int (f + 1) + 1 \<le> of_int i"
      by (metis of_int_1 of_int_add of_int_le_iff zless_imp_add1_zle)
    then show ?thesis unfolding y by simp
  qed
  have "r = 1 / 2"
  proof (rule ccontr)
    assume "r \<noteq> 1 / 2"
    then consider "r < 1 / 2" | "1 / 2 < r" by linarith
    then show False
    proof cases
      case 1
      then have e: "round_half_even y = f" by (simp add: rhe)
      with assms have d: "\<bar>of_int i - y\<bar> = r" and "i \<noteq> f"
        using r by (simp_all add: y)
      then consider "i < f" | "f < i" by linarith
      then show False
        using far far' d 1 r by cases linarith+
    next
      case 2
      then have big: "1 / 2 < r" .
      then have e: "round_half_even y = f + 1" by (simp add: rhe)
      with assms have d: "\<bar>of_int i - y\<bar> = 1 - r" and "i \<noteq> f + 1"
        using r by (simp_all add: y)
      then consider "i < f" | "i = f" | "f + 1 < i" by linarith
      then show False
      proof cases
        case 1
        with far' d r big show False by linarith
      next
        case 2
        with d r big show False by (simp add: y)
      next
        case 3
        with far'' d r big show False by linarith
      qed
    qed
  qed
  then show ?thesis
    by (simp add: rhe)
qed

lemma quotient_float_tie_even:
  assumes "0 < m" and "\<bar>k\<bar> < 2 ^ 53"
    and "of_int k * 2 powi j \<noteq> quotient_float n m"
    and "\<bar>of_int k * 2 powi j - rat_of_nat n / rat_of_nat m\<bar>
           = \<bar>quotient_float n m - rat_of_nat n / rat_of_nat m\<bar>"
  shows "\<exists>k' j'. even k' \<and> 2 ^ 52 \<le> k' \<and> k' < 2 ^ 53 \<and>
           quotient_float n m = of_int k' * 2 powi j'"
proof (cases "n = 0")
  case True
  with assms(3,4) show ?thesis
    by (simp add: quotient_float_def)
next
  case False
  then have "0 < n" by simp
  from this assms(1) obtain e mantissa y where
    mantissa: "mantissa = round_half_even y"
    and x: "quotient_float n m = of_int mantissa * 2 powi e"
    and q: "rat_of_nat n / rat_of_nat m = y * 2 powi e"
    and y1: "2 ^ 52 \<le> y" and y2: "y < 2 ^ 53"
    and m1: "2 ^ 52 \<le> mantissa" and m2: "mantissa \<le> 2 ^ 53"
    by (rule quotient_float_positive)
  define P :: rat where "P = 2 powi e"
  define d where "d = rat_of_int k * 2 powi j"
  have P: "0 < P" by (simp add: P_def)
  have scale: "\<bar>a * P - y * P\<bar> = \<bar>a - y\<bar> * P" for a
    using P by (simp add: abs_mult flip: left_diff_distrib)
  have near: "\<bar>of_int mantissa - y\<bar> \<le> \<bar>of_int i - y\<bar>" for i
    unfolding mantissa by (rule round_half_even_nearest)
  have eq: "\<bar>d - y * P\<bar> = \<bar>of_int mantissa - y\<bar> * P"
    using assms(4) scale [of "of_int mantissa"] by (simp add: d_def x q P_def)
  have ne: "d \<noteq> of_int mantissa * P"
    using assms(3) by (simp add: d_def x P_def)
  have tie: "even mantissa" if "i \<noteq> mantissa" and "\<bar>of_int i - y\<bar> = \<bar>of_int mantissa - y\<bar>" for i
    using that unfolding mantissa by (rule round_half_even_tie)
  consider "d \<le> 2 ^ 52 * P" | "2 ^ 53 * P \<le> d" | "2 ^ 52 * P < d" and "d < 2 ^ 53 * P"
    by linarith
  then have "even mantissa"
  proof cases
    case 1
    have "\<bar>of_int (2 ^ 52) - y\<bar> * P = y * P - 2 ^ 52 * P"
      using y1 by (simp add: left_diff_distrib)
    also have "\<dots> \<le> \<bar>d - y * P\<bar>"
      using 1 by linarith
    finally have "\<bar>of_int (2 ^ 52) - y\<bar> \<le> \<bar>of_int mantissa - y\<bar>"
      using P by (simp add: eq)
    with near [of "2 ^ 52"] have "\<bar>of_int (2 ^ 52) - y\<bar> = \<bar>of_int mantissa - y\<bar>"
      by linarith
    then show ?thesis
      using tie [of "2 ^ 52"] by (cases "mantissa = 2 ^ 52") simp_all
  next
    case 2
    have "\<bar>of_int (2 ^ 53) - y\<bar> * P = 2 ^ 53 * P - y * P"
      using y2 by (simp add: left_diff_distrib)
    also have "\<dots> \<le> \<bar>d - y * P\<bar>"
      using 2 by linarith
    finally have "\<bar>of_int (2 ^ 53) - y\<bar> \<le> \<bar>of_int mantissa - y\<bar>"
      using P by (simp add: eq)
    with near [of "2 ^ 53"] have "\<bar>of_int (2 ^ 53) - y\<bar> = \<bar>of_int mantissa - y\<bar>"
      by linarith
    then show ?thesis
      using tie [of "2 ^ 53"] by (cases "mantissa = 2 ^ 53") simp_all
  next
    case 3
    have "e \<le> j"
    proof (rule ccontr)
      assume "\<not> e \<le> j"
      then have "j + 1 \<le> e" by simp
      then have "(2::rat) powi (j + 1) \<le> 2 powi e"
        by (intro power_int_increasing) simp_all
      then have j: "2 * (2::rat) powi j \<le> P"
        using power_int_add [of "2::rat" j 1] by (simp add: P_def mult.commute)
      have "rat_of_int k \<le> 2 ^ 53"
        using assms(2) by (metis abs_le_D1 less_imp_le of_int_le_iff of_int_numeral of_int_power)
      then have "d \<le> 2 ^ 53 * 2 powi j"
        unfolding d_def by (intro mult_right_mono) simp_all
      also have "\<dots> = 2 ^ 52 * (2 * 2 powi j)" by simp
      also have "\<dots> \<le> 2 ^ 52 * P"
        using j by (intro mult_left_mono) simp_all
      finally show False using 3(1) by simp
    qed
    then obtain t where t: "j = e + int t"
      by (metis zle_iff_zadd)
    have "(2::rat) powi j = 2 powi e * 2 ^ t"
      using power_int_add [of "2::rat" e "int t"] by (simp add: t)
    then have di: "d = of_int (k * 2 ^ t) * P"
      by (simp add: d_def P_def)
    with ne have "k * 2 ^ t \<noteq> mantissa"
      by auto
    moreover from di eq have "\<bar>of_int (k * 2 ^ t) - y\<bar> = \<bar>of_int mantissa - y\<bar>"
      using P by (simp only: scale) simp
    ultimately show ?thesis
      by (rule tie)
  qed
  show ?thesis
  proof (cases "mantissa = 2 ^ 53")
    case True
    have "(2::rat) powi (e + 1) = 2 powi e * 2"
      using power_int_add [of "2::rat" e 1] by simp
    then have "quotient_float n m = of_int (2 ^ 52) * 2 powi (e + 1)"
      by (simp add: x True)
    moreover have "even (2 ^ 52 :: int) \<and> (2 ^ 52 :: int) \<le> 2 ^ 52 \<and> (2 ^ 52 :: int) < 2 ^ 53"
      by simp
    ultimately show ?thesis by blast
  next
    case False
    with m2 have "mantissa < 2 ^ 53" by simp
    with \<open>even mantissa\<close> m1 x show ?thesis by blast
  qed
qed

lemma quotient_float_same: "0 < n \<Longrightarrow> quotient_float n n = 1"
  using quotient_float_exact [of n 1 n 0] by simp

lemma step_fraction_eq:
  "step_fraction actual expected =
     (if length expected = 0 then Inl ZeroDivisionError
      else Inr (quotient_float (length actual) (length expected)))"
  by (simp add: step_fraction_def true_divide_def)

lemma true_divide_one_third:
  "true_divide 1 3 = Inr (6004799503160661 / 18014398509481984)"
  by code_simp

subsection \<open>The comparator\<close>

lemma sort_eq_iff_mset: "sort xs = sort ys \<longleftrightarrow> mset xs = mset ys"
  by (metis mset_sort properties_for_sort sorted_sort)

lemma startswith_iff_prefix: "startswith s p \<longleftrightarrow> prefix p s"
  unfolding startswith_def prefix_def
  by (metis append_eq_conv_conj append_take_drop_id)

lemma trajectory_score_spec:
  "trajectory_score om a e =
     (if om then (if a = e then 1 else 0) else (if mset a = mset e then 1 else 0))"
  by (simp add: trajectory_score_def sort_eq_iff_mset)

lemma compare_outputs_InrD:
  assumes "compare_outputs ro eo ri qa = Inr rs"
  obtains a e orest where
    "extract_actual_steps ro = Inr a" "expected_steps eo = Some e" "e \<noteq> []"
    "output_results ro eo ri qa = Inr orest"
    "rs = trajectory_results (resolved_order_matters eo)
            (trajectory_score (resolved_order_matters eo) a e)
            (quotient_float (length a) (length e))
          @ state_results ro eo @ orest"
  using assms
  by (auto simp: compare_outputs_def step_fraction_eq Let_def
           split: sum.splits option.splits if_splits)

lemma compare_outputs_InrI:
  assumes "extract_actual_steps ro = Inr a" "expected_steps eo = Some e" "e \<noteq> []"
    "output_results ro eo ri qa = Inr orest"
  shows "compare_outputs ro eo ri qa =
     Inr (trajectory_results (resolved_order_matters eo)
            (trajectory_score (resolved_order_matters eo) a e)
            (quotient_float (length a) (length e))
          @ state_results ro eo @ orest)"
  using assms
  by (simp add: compare_outputs_def step_fraction_eq Let_def)

lemma output_results_skip:
  "final_output ro = None \<or> qa = None \<Longrightarrow> output_results ro eo ri qa = Inr []"
  by (auto simp: output_results_def split: option.splits)

lemma run_ba_steps: "extract_actual_steps run_ba = Inr [''b'', ''a'']"
  by (simp add: extract_actual_steps_def run_ba_def)

lemma example_ab_unordered_expected:
  "expected_steps example_ab_unordered = Some [''a'', ''b'']"
  by (simp add: example_ab_unordered_def)

lemma run_three_steps: "extract_actual_steps run_three = Inr [''a'', ''b'', ''a'']"
  by (simp add: extract_actual_steps_def run_three_def)

lemma compare_outputs_second:
  assumes "extract_actual_steps ro = Inr a" and "expected_steps eo = Some e"
    and "compare_outputs ro eo ri qa = Inr rs"
  shows "e \<noteq> [] \<and> rs ! 1 = \<lparr>key = ''# steps / # expected steps'',
            score = PyFloat (quotient_float (length a) (length e)),
            comment = None, source_run_id = None\<rparr>"
  using assms by (auto elim!: compare_outputs_InrD simp: trajectory_results_def)

lemma run_a_steps: "extract_actual_steps run_a = Inr [''a'']"
  by (simp add: extract_actual_steps_def run_a_def)

lemma example_empty_expected: "expected_steps example_empty = Some []"
  by (simp add: example_empty_def)

lemma missing_steps_message_names_fields:
  "sublist ''intermediate_steps'' missing_steps_message \<and>
   sublist ''actual_steps'' missing_steps_message"
proof
  have "missing_steps_message =
      (''Please make sure that your agent outputs '' @ [CHR 0x27]) @ ''intermediate_steps''
        @ ('' or '' @ [CHR 0x27] @ ''actual_steps'' @ [CHR 0x27])"
    by (simp add: missing_steps_message_def)
  then show "sublist ''intermediate_steps'' missing_steps_message"
    unfolding sublist_def by blast
  have "missing_steps_message =
      (''Please make sure that your agent outputs '' @ [CHR 0x27] @ ''intermediate_steps or ''
        @ [CHR 0x27]) @ ''actual_steps'' @ [CHR 0x27]"
    by (simp add: missing_steps_message_def)
  then show "sublist ''actual_steps'' missing_steps_message"
    unfolding sublist_def by blast
qed

lemma run_with_output_steps: "extract_actual_steps run_with_output = Inr [''a'', ''b'']"
  by (simp add: extract_actual_steps_def run_with_output_def)

lemma call_judge_no_reference:
  "reference eo = None \<Longrightarrow> call_judge judge out eo ri = Inl (KeyError ''reference'')"
  by (cases judge) (simp_all add: call_judge_def)

lemma output_results_no_reference:
  "final_output ro = Some out \<Longrightarrow> reference eo = None \<Longrightarrow>
     output_results ro eo ri (Some judge) = Inl (KeyError ''reference'')"
  by (simp add: output_results_def call_judge_no_reference)

lemma compare_outputs_output_error:
  assumes "output_results ro eo ri qa = Inl err"
  shows "\<exists>e. compare_outputs ro eo ri qa = Inl e"
  using assms
  by (auto simp: compare_outputs_def Let_def split: sum.splits option.splits)

lemma compare_outputs_output_error_valid:
  assumes "extract_actual_steps ro = Inr a" and "expected_steps eo = Some e" and "e \<noteq> []"
    and "output_results ro eo ri qa = Inl err"
  shows "compare_outputs ro eo ri qa = Inl err"
  using assms
  by (simp add: compare_outputs_def step_fraction_eq Let_def)

lemma example_with_reference_expected:
  "expected_steps example_with_reference = Some [''a'', ''b'']"
  by (simp add: example_with_reference_def)

lemma correctness_key_only_from_judge:
  assumes "compare_outputs ro eo ri None = Inr rs"
  shows "\<forall>r \<in> set rs. key r \<noteq> ''correctness''"
proof -
  from assms obtain a e orest where
    o: "output_results ro eo ri None = Inr orest"
    and rs: "rs = trajectory_results (resolved_order_matters eo)
            (trajectory_score (resolved_order_matters eo) a e)
            (quotient_float (length a) (length e))
          @ state_results ro eo @ orest"
    by (auto elim!: compare_outputs_InrD)
  from o have "orest = []"
    by (simp add: output_results_skip)
  then show ?thesis
    by (auto simp: rs trajectory_results_def state_results_def split: option.splits)
qed

lemma evaluate_run_InrD:
  assumes "evaluate_run self run example = Inr rs"
  shows "\<exists>ro eo. outputs run = Some ro \<and>
           compare_outputs ro eo (inputs run) (qa_evaluator self) = Inr rs"
  using assms
  by (auto simp: evaluate_run_def split: option.splits if_splits)

lemma evaluate_run_record_none:
  "evaluate_run \<lparr>qa_evaluator = None, output_evaluation = ''none''\<rparr> run_record
     (Some example_record) =
   Inr [\<lparr>key = ''Intermediate steps correctness'', score = PyInt 1,
          comment = Some ''Order matters=True'', source_run_id = None\<rparr>,
        \<lparr>key = ''# steps / # expected steps'', score = PyFloat 1,
          comment = None, source_run_id = None\<rparr>]"
proof -
  have "compare_outputs run_with_output example_with_reference inputs_with_question None =
     Inr [\<lparr>key = ''Intermediate steps correctness'', score = PyInt 1,
          comment = Some ''Order matters=True'', source_run_id = None\<rparr>,
        \<lparr>key = ''# steps / # expected steps'', score = PyFloat 1,
          comment = None, source_run_id = None\<rparr>]"
    by (simp add: compare_outputs_def extract_actual_steps_def run_with_output_def
          example_with_reference_def resolved_order_matters_def trajectory_score_def
          step_fraction_eq quotient_float_same trajectory_results_def state_results_def
          output_results_def
          str_bool_def)
  then show ?thesis
    by (simp add: evaluate_run_def run_record_def example_record_def run_with_output_def
          example_with_reference_def)
qed

lemma compare_outputs_first:
  assumes "extract_actual_steps ro = Inr a" and "expected_steps eo = Some e"
    and "compare_outputs ro eo ri qa = Inr rs"
  shows "rs ! 0 = \<lparr>key = ''Intermediate steps correctness'',
            score = PyInt (trajectory_score (resolved_order_matters eo) a e),
            comment = Some (''Order matters='' @ str_bool (resolved_order_matters eo)),
            source_run_id = None\<rparr>"
  using assms by (auto elim!: compare_outputs_InrD simp: trajectory_results_def)

lemma compare_outputs_returns:
  assumes "extract_actual_steps ro = Inr a" and "expected_steps eo = Some e" and "e \<noteq> []"
    and "final_output ro = None \<or> qa = None"
  shows "\<exists>rs. compare_outputs ro eo ri qa = Inr rs"
  using assms by (simp add: compare_outputs_InrI output_results_skip)

lemma call_judge_no_question:
  "reference eo = Some ref \<Longrightarrow> question ri = None \<Longrightarrow>
     call_judge (LoadedEvaluator f) out eo ri = Inl (KeyError ''question'')"
  by (simp add: call_judge_def)

lemma output_results_no_question:
  assumes "final_output ro = Some out" and "question ri = None"
  shows "\<exists>err. output_results ro eo ri (Some (LoadedEvaluator f)) = Inl err"
  using assms
  by (cases "reference eo") (simp_all add: output_results_def call_judge_def)

lemma call_judge_QAMath_inputs:
  "call_judge (QAMathEvaluator c) out eo ri = call_judge (QAMathEvaluator c) out eo ri'"
  by (simp add: call_judge_def)

lemma output_results_QAMath_inputs:
  "output_results ro eo ri (Some (QAMathEvaluator c)) =
   output_results ro eo ri' (Some (QAMathEvaluator c))"
  by (cases "final_output ro")
    (simp_all add: output_results_def call_judge_QAMath_inputs [of c _ eo ri ri'])

lemma example_aba_expected: "expected_steps example_aba = Some [''a'', ''b'', ''a'']"
  by (simp add: example_aba_def)

section \<open>Trajectory correctness\<close>

text \<open>
  Claim C1. Whenever the comparator has a step sequence and the expected steps, every
  result list it returns starts with the entry keyed \<open>Intermediate steps correctness\<close>,
  whose score is: with \<^verbatim>\<open>order_matters\<close> true (also when the key is absent), 1 if the
  actual and expected sequences have the same length and the same identifier at every
  position and 0 otherwise; with \<^verbatim>\<open>order_matters\<close> false, 1 if the two sequences are the
  same multiset and 0 otherwise. A result list is returned when the expected sequence is
  not empty and no output judging takes place.
\<close>

theorem trajectory_correctness_score:
  assumes "extract_actual_steps ro = Inr actual" and "expected_steps eo = Some expected"
  shows "(\<forall>rs. compare_outputs ro eo ri qa = Inr rs \<longrightarrow>
            key (rs ! 0) = ''Intermediate steps correctness'' \<and>
            score (rs ! 0) = PyInt
              (if (case order_matters eo of None \<Rightarrow> True | Some b \<Rightarrow> b)
               then (if length actual = length expected \<and>
                        (\<forall>i < length actual. actual ! i = expected ! i) then 1 else 0)
               else (if mset actual = mset expected then 1 else 0)))
       \<and> (expected \<noteq> [] \<and> (final_output ro = None \<or> qa = None) \<longrightarrow>
            (\<exists>rs. compare_outputs ro eo ri qa = Inr rs))"
proof (intro conjI allI impI)
  fix rs
  assume ret: "compare_outputs ro eo ri qa = Inr rs"
  from ret assms obtain orest where
    rs: "rs = trajectory_results (resolved_order_matters eo)
            (trajectory_score (resolved_order_matters eo) actual expected)
            (quotient_float (length actual) (length expected))
          @ state_results ro eo @ orest"
    by (auto elim!: compare_outputs_InrD)
  show "key (rs ! 0) = ''Intermediate steps correctness''"
    by (simp add: rs trajectory_results_def)
  have eq: "(actual = expected) =
      (length actual = length expected \<and> (\<forall>i < length actual. actual ! i = expected ! i))"
    by (rule list_eq_iff_nth_eq)
  show "score (rs ! 0) = PyInt
          (if (case order_matters eo of None \<Rightarrow> True | Some b \<Rightarrow> b)
           then (if length actual = length expected \<and>
                    (\<forall>i < length actual. actual ! i = expected ! i) then 1 else 0)
           else (if mset actual = mset expected then 1 else 0))"
    unfolding eq [symmetric]
    by (simp add: rs trajectory_results_def trajectory_score_spec resolved_order_matters_def)
next
  assume "expected \<noteq> [] \<and> (final_output ro = None \<or> qa = None)"
  then have "expected \<noteq> []" and "output_results ro eo ri qa = Inr []"
    by (simp_all add: output_results_skip)
  with assms show "\<exists>rs. compare_outputs ro eo ri qa = Inr rs"
    by (simp add: compare_outputs_InrI)
qed

theorem trajectory_correctness_score_witness:
  "extract_actual_steps run_ba = Inr [''b'', ''a''] \<and>
   expected_steps example_ab_unordered = Some [''a'', ''b''] \<and>
   (\<exists>rs. compare_outputs run_ba example_ab_unordered no_inputs None = Inr rs \<and>
         score (rs ! 0) = PyInt 1)"
proof -
  note t = trajectory_correctness_score [OF run_ba_steps example_ab_unordered_expected,
      of no_inputs None]
  from t obtain rs where rs: "compare_outputs run_ba example_ab_unordered no_inputs None = Inr rs"
    by auto
  with t have "score (rs ! 0) = PyInt 1"
    by (simp add: example_ab_unordered_def)
  with rs show ?thesis
    by (simp add: run_ba_steps example_ab_unordered_expected)
qed

section \<open>Step-count ratio\<close>

text \<open>
  Claim C2. For a run with N actual steps and an example with M expected steps, M positive,
  line 107 yields a float \<open>x\<close>, and every result list the comparator returns carries it
  under the key \<open># steps / # expected steps\<close>; a result list is returned whenever no
  output judging takes place. The float is Python's \<^verbatim>\<open>N / M\<close>: it has a significand of at
  most 53 bits and no number with such a significand is nearer to the quotient N/M, so it
  is the quotient itself whenever that has such a significand; when another such number is
  equally near, its own 53-bit significand is even; and it differs from the quotient by at
  most the \<open>2^53\<close>-th part of it. It is not clamped: it is at least 1 when
  N is at least M, and it is c when N is c times M. It is monotone: against a second run
  and example, it does not decrease when N grows at equal M, and does not increase when M
  grows at equal N.
\<close>

theorem step_count_ratio:
  assumes "extract_actual_steps ro = Inr a" and "expected_steps eo = Some e" and "e \<noteq> []"
    and "extract_actual_steps ro' = Inr a'" and "expected_steps eo' = Some e'" and "e' \<noteq> []"
  shows "\<exists>x x'. step_fraction a e = Inr x \<and> step_fraction a' e' = Inr x' \<and>
     (\<forall>rs. compare_outputs ro eo ri qa = Inr rs \<longrightarrow>
        key (rs ! 1) = ''# steps / # expected steps'' \<and> score (rs ! 1) = PyFloat x) \<and>
     (\<forall>rs'. compare_outputs ro' eo' ri' qa' = Inr rs' \<longrightarrow> score (rs' ! 1) = PyFloat x') \<and>
     (final_output ro = None \<or> qa = None \<longrightarrow>
        (\<exists>rs. compare_outputs ro eo ri qa = Inr rs \<and> score (rs ! 1) = PyFloat x)) \<and>
     (\<exists>k j. \<bar>k\<bar> < 2 ^ 53 \<and> x = of_int k * 2 powi j) \<and>
     (\<forall>k j. \<bar>k\<bar> < 2 ^ 53 \<longrightarrow>
        \<bar>x - of_nat (length a) / of_nat (length e)\<bar>
          \<le> \<bar>of_int k * 2 powi j - of_nat (length a) / of_nat (length e)\<bar>) \<and>
     (\<forall>k j. \<bar>k\<bar> < 2 ^ 53 \<and> rat_of_nat (length a) / of_nat (length e) = of_int k * 2 powi j \<longrightarrow>
        x = of_nat (length a) / of_nat (length e)) \<and>
     (\<forall>k j. \<bar>k\<bar> < 2 ^ 53 \<and> of_int k * 2 powi j \<noteq> x \<and>
        \<bar>of_int k * 2 powi j - of_nat (length a) / of_nat (length e)\<bar>
          = \<bar>x - of_nat (length a) / of_nat (length e)\<bar> \<longrightarrow>
        (\<exists>k' j'. even k' \<and> 2 ^ 52 \<le> k' \<and> k' < 2 ^ 53 \<and> x = of_int k' * 2 powi j')) \<and>
     \<bar>x - of_nat (length a) / of_nat (length e)\<bar> \<le> of_nat (length a) / of_nat (length e) / 2 ^ 53 \<and>
     (length e \<le> length a \<longrightarrow> 1 \<le> x) \<and>
     (\<forall>c. c < 2 ^ 53 \<and> length a = c * length e \<longrightarrow> x = of_nat c) \<and>
     (length e = length e' \<and> length a \<le> length a' \<longrightarrow> x \<le> x') \<and>
     (length a = length a' \<and> length e \<le> length e' \<longrightarrow> x' \<le> x)"
proof -
  define n m n' m' where "n = length a" and "m = length e" and "n' = length a'" and "m' = length e'"
  define x x' where "x = quotient_float n m" and "x' = quotient_float n' m'"
  have m: "0 < m" and m': "0 < m'"
    using assms(3,6) by (simp_all add: m_def m'_def)
  have sf: "step_fraction a e = Inr x" and sf': "step_fraction a' e' = Inr x'"
    using m m' by (simp_all add: step_fraction_eq x_def x'_def n_def m_def n'_def m'_def)
  have ret: "key (rs ! 1) = ''# steps / # expected steps'' \<and> score (rs ! 1) = PyFloat x"
    if "compare_outputs ro eo ri qa = Inr rs" for rs
    using compare_outputs_second [OF assms(1,2) that]
    by (simp add: x_def n_def m_def)
  have ret': "score (rs' ! 1) = PyFloat x'"
    if "compare_outputs ro' eo' ri' qa' = Inr rs'" for rs'
    using compare_outputs_second [OF assms(4,5) that]
    by (simp add: x'_def n'_def m'_def)
  have tot: "\<exists>rs. compare_outputs ro eo ri qa = Inr rs \<and> score (rs ! 1) = PyFloat x"
    if "final_output ro = None \<or> qa = None"
  proof -
    from that have "output_results ro eo ri qa = Inr []"
      by (rule output_results_skip)
    from compare_outputs_InrI [OF assms(1-3) this]
    obtain rs where rs: "compare_outputs ro eo ri qa = Inr rs"
      by blast
    with ret [OF rs] show ?thesis by blast
  qed
  have rep: "\<exists>k j. \<bar>k\<bar> < 2 ^ 53 \<and> x = of_int k * 2 powi j"
    unfolding x_def using m by (rule quotient_float_representable)
  have near: "\<bar>x - of_nat n / of_nat m\<bar> \<le> \<bar>of_int k * 2 powi j - of_nat n / of_nat m\<bar>"
    if "\<bar>k\<bar> < 2 ^ 53" for k j
    unfolding x_def using m that by (rule quotient_float_nearest)
  have exact: "x = of_nat n / of_nat m"
    if "\<bar>k\<bar> < 2 ^ 53 \<and> rat_of_nat n / of_nat m = of_int k * 2 powi j" for k j
    unfolding x_def using m that by (blast intro: quotient_float_exact)
  have tie: "\<exists>k' j'. even k' \<and> 2 ^ 52 \<le> k' \<and> k' < 2 ^ 53 \<and> x = of_int k' * 2 powi j'"
    if "\<bar>k\<bar> < 2 ^ 53 \<and> of_int k * 2 powi j \<noteq> x \<and>
        \<bar>of_int k * 2 powi j - of_nat n / of_nat m\<bar> = \<bar>x - of_nat n / of_nat m\<bar>" for k j
  proof -
    from that have k: "\<bar>k\<bar> < 2 ^ 53"
      and ne: "of_int k * 2 powi j \<noteq> quotient_float n m"
      and eq: "\<bar>of_int k * 2 powi j - rat_of_nat n / rat_of_nat m\<bar>
                 = \<bar>quotient_float n m - rat_of_nat n / rat_of_nat m\<bar>"
      by (simp_all add: x_def)
    from quotient_float_tie_even [OF m k ne eq] show ?thesis
      by (simp only: x_def)
  qed
  have err: "\<bar>x - of_nat n / of_nat m\<bar> \<le> of_nat n / of_nat m / 2 ^ 53"
    unfolding x_def using m by (rule quotient_float_error)
  have ge1: "1 \<le> x" if "m \<le> n"
  proof -
    from that m have "rat_of_nat m / of_nat m \<le> of_nat n / of_nat m"
      by (simp add: divide_le_cancel)
    from quotient_float_mono [OF m m this] show ?thesis
      using m by (simp add: x_def quotient_float_same)
  qed
  have mult: "x = of_nat c" if "c < 2 ^ 53 \<and> n = c * m" for c
  proof -
    from that have "\<bar>int c\<bar> < 2 ^ 53"
      by (metis abs_of_nat of_nat_less_iff of_nat_numeral of_nat_power)
    moreover have "rat_of_nat n / of_nat m = of_int (int c) * 2 powi 0"
      using that m by simp
    ultimately have "x = of_nat n / of_nat m"
      using exact by blast
    with that m show ?thesis by simp
  qed
  have mono1: "x \<le> x'" if "m = m' \<and> n \<le> n'"
  proof -
    from that m have "rat_of_nat n / of_nat m \<le> of_nat n' / of_nat m'"
      by (simp add: divide_le_cancel)
    from quotient_float_mono [OF m m' this] show ?thesis
      by (simp add: x_def x'_def)
  qed
  have mono2: "x' \<le> x" if "n = n' \<and> m \<le> m'"
  proof -
    from that m have "rat_of_nat n' / of_nat m' \<le> of_nat n / of_nat m"
      by (simp add: frac_le)
    from quotient_float_mono [OF m' m this] show ?thesis
      by (simp add: x_def x'_def)
  qed
  have c_ret: "\<forall>rs. compare_outputs ro eo ri qa = Inr rs \<longrightarrow>
        key (rs ! 1) = ''# steps / # expected steps'' \<and> score (rs ! 1) = PyFloat x"
    using ret by blast
  have c_ret': "\<forall>rs'. compare_outputs ro' eo' ri' qa' = Inr rs' \<longrightarrow> score (rs' ! 1) = PyFloat x'"
    using ret' by blast
  have c_tot: "final_output ro = None \<or> qa = None \<longrightarrow>
        (\<exists>rs. compare_outputs ro eo ri qa = Inr rs \<and> score (rs ! 1) = PyFloat x)"
    using tot by blast
  have c_near: "\<forall>k j. \<bar>k\<bar> < 2 ^ 53 \<longrightarrow>
        \<bar>x - of_nat n / of_nat m\<bar> \<le> \<bar>of_int k * 2 powi j - of_nat n / of_nat m\<bar>"
    using near by blast
  have c_exact: "\<forall>k j. \<bar>k\<bar> < 2 ^ 53 \<and> rat_of_nat n / of_nat m = of_int k * 2 powi j \<longrightarrow>
        x = of_nat n / of_nat m"
    using exact by blast
  have c_tie: "\<forall>k j. \<bar>k\<bar> < 2 ^ 53 \<and> of_int k * 2 powi j \<noteq> x \<and>
        \<bar>of_int k * 2 powi j - of_nat n / of_nat m\<bar> = \<bar>x - of_nat n / of_nat m\<bar> \<longrightarrow>
        (\<exists>k' j'. even k' \<and> 2 ^ 52 \<le> k' \<and> k' < 2 ^ 53 \<and> x = of_int k' * 2 powi j')"
    using tie by (intro allI impI)
  have c_ge1: "m \<le> n \<longrightarrow> 1 \<le> x"
    using ge1 by blast
  have c_mult: "\<forall>c. c < 2 ^ 53 \<and> n = c * m \<longrightarrow> x = of_nat c"
    using mult by blast
  have c_mono1: "m = m' \<and> n \<le> n' \<longrightarrow> x \<le> x'"
    using mono1 by blast
  have c_mono2: "n = n' \<and> m \<le> m' \<longrightarrow> x' \<le> x"
    using mono2 by blast
  have "step_fraction a e = Inr x \<and> step_fraction a' e' = Inr x' \<and>
     (\<forall>rs. compare_outputs ro eo ri qa = Inr rs \<longrightarrow>
        key (rs ! 1) = ''# steps / # expected steps'' \<and> score (rs ! 1) = PyFloat x) \<and>
     (\<forall>rs'. compare_outputs ro' eo' ri' qa' = Inr rs' \<longrightarrow> score (rs' ! 1) = PyFloat x') \<and>
     (final_output ro = None \<or> qa = None \<longrightarrow>
        (\<exists>rs. compare_outputs ro eo ri qa = Inr rs \<and> score (rs ! 1) = PyFloat x)) \<and>
     (\<exists>k j. \<bar>k\<bar> < 2 ^ 53 \<and> x = of_int k * 2 powi j) \<and>
     (\<forall>k j. \<bar>k\<bar> < 2 ^ 53 \<longrightarrow>
        \<bar>x - of_nat n / of_nat m\<bar> \<le> \<bar>of_int k * 2 powi j - of_nat n / of_nat m\<bar>) \<and>
     (\<forall>k j. \<bar>k\<bar> < 2 ^ 53 \<and> rat_of_nat n / of_nat m = of_int k * 2 powi j \<longrightarrow>
        x = of_nat n / of_nat m) \<and>
     (\<forall>k j. \<bar>k\<bar> < 2 ^ 53 \<and> of_int k * 2 powi j \<noteq> x \<and>
        \<bar>of_int k * 2 powi j - of_nat n / of_nat m\<bar> = \<bar>x - of_nat n / of_nat m\<bar> \<longrightarrow>
        (\<exists>k' j'. even k' \<and> 2 ^ 52 \<le> k' \<and> k' < 2 ^ 53 \<and> x = of_int k' * 2 powi j')) \<and>
     \<bar>x - of_nat n / of_nat m\<bar> \<le> of_nat n / of_nat m / 2 ^ 53 \<and>
     (m \<le> n \<longrightarrow> 1 \<le> x) \<and>
     (\<forall>c. c < 2 ^ 53 \<and> n = c * m \<longrightarrow> x = of_nat c) \<and>
     (m = m' \<and> n \<le> n' \<longrightarrow> x \<le> x') \<and>
     (n = n' \<and> m \<le> m' \<longrightarrow> x' \<le> x)"
    by (intro conjI)
      (rule sf sf' c_ret c_ret' c_tot rep c_near c_exact c_tie err c_ge1 c_mult c_mono1 c_mono2)+
  then show ?thesis
    unfolding n_def m_def n'_def m'_def by (intro exI)
qed

theorem step_count_ratio_witness:
  "\<exists>rs rs' rs''.
     compare_outputs run_three example_ab_unordered no_inputs None = Inr rs \<and>
     compare_outputs run_ba example_ab_unordered no_inputs None = Inr rs' \<and>
     compare_outputs run_a example_aba no_inputs None = Inr rs'' \<and>
     score (rs ! 1) = PyFloat (3 / 2) \<and> score (rs' ! 1) = PyFloat 1 \<and>
     score (rs'' ! 1) = PyFloat (6004799503160661 / 18014398509481984) \<and>
     (1 :: rat) < 3 / 2"
proof -
  have ne2: "[''a'', ''b''] \<noteq> []" and ne3: "[''a'', ''b'', ''a''] \<noteq> []"
    by simp_all
  have none3: "final_output run_three = None \<or> (None :: StringEvaluator option) = None"
    and none2: "final_output run_ba = None \<or> (None :: StringEvaluator option) = None"
    and none1: "final_output run_a = None \<or> (None :: StringEvaluator option) = None"
    by simp_all
  from step_count_ratio [OF run_three_steps example_ab_unordered_expected ne2
      run_ba_steps example_ab_unordered_expected ne2, of no_inputs None no_inputs None]
  have "\<exists>x x'. step_fraction [''b'', ''a''] [''a'', ''b''] = Inr x' \<and>
     (\<forall>rs'. compare_outputs run_ba example_ab_unordered no_inputs None = Inr rs' \<longrightarrow>
        score (rs' ! 1) = PyFloat x') \<and>
     (final_output run_three = None \<or> (None :: StringEvaluator option) = None \<longrightarrow>
        (\<exists>rs. compare_outputs run_three example_ab_unordered no_inputs None = Inr rs \<and>
              score (rs ! 1) = PyFloat x)) \<and>
     (\<forall>k j. \<bar>k\<bar> < 2 ^ 53 \<and>
        rat_of_nat (length [''a'', ''b'', ''a'']) / of_nat (length [''a'', ''b'']) =
          of_int k * 2 powi j \<longrightarrow>
        x = of_nat (length [''a'', ''b'', ''a'']) / of_nat (length [''a'', ''b'']))"
    by (elim exE conjE) (intro exI conjI, assumption+)
  then obtain x x' where sf': "step_fraction [''b'', ''a''] [''a'', ''b''] = Inr x'"
    and ret': "\<forall>rs'. compare_outputs run_ba example_ab_unordered no_inputs None = Inr rs' \<longrightarrow>
        score (rs' ! 1) = PyFloat x'"
    and ret: "final_output run_three = None \<or> (None :: StringEvaluator option) = None \<longrightarrow>
        (\<exists>rs. compare_outputs run_three example_ab_unordered no_inputs None = Inr rs \<and>
              score (rs ! 1) = PyFloat x)"
    and exact: "\<forall>k j. \<bar>k\<bar> < 2 ^ 53 \<and>
        rat_of_nat (length [''a'', ''b'', ''a'']) / of_nat (length [''a'', ''b'']) =
          of_int k * 2 powi j \<longrightarrow>
        x = of_nat (length [''a'', ''b'', ''a'']) / of_nat (length [''a'', ''b''])"
    by (elim exE conjE)
  have "\<bar>3 :: int\<bar> < 2 ^ 53 \<and>
      rat_of_nat (length [''a'', ''b'', ''a'']) / of_nat (length [''a'', ''b'']) =
        of_int 3 * 2 powi (- 1)"
    by simp
  with exact have "x = of_nat (length [''a'', ''b'', ''a'']) / of_nat (length [''a'', ''b''])"
    by (elim allE impE) assumption+
  then have x: "x = 3 / 2"
    by simp
  from sf' have x': "x' = 1"
    by (simp add: step_fraction_eq quotient_float_same)
  from ret none3 obtain rs where
    rs: "compare_outputs run_three example_ab_unordered no_inputs None = Inr rs"
    and s: "score (rs ! 1) = PyFloat x"
    by (elim impE exE conjE)
  obtain rs' where rs': "compare_outputs run_ba example_ab_unordered no_inputs None = Inr rs'"
    using compare_outputs_returns [OF run_ba_steps example_ab_unordered_expected ne2 none2]
    by blast
  with ret' have s': "score (rs' ! 1) = PyFloat x'"
    by (elim allE impE) assumption+
  from step_count_ratio [OF run_a_steps example_aba_expected ne3
      run_a_steps example_aba_expected ne3, of no_inputs None no_inputs None]
  have "\<exists>y. step_fraction [''a''] [''a'', ''b'', ''a''] = Inr y \<and>
     (final_output run_a = None \<or> (None :: StringEvaluator option) = None \<longrightarrow>
        (\<exists>rs. compare_outputs run_a example_aba no_inputs None = Inr rs \<and>
              score (rs ! 1) = PyFloat y))"
    by (elim exE conjE) (intro exI conjI, assumption+)
  then obtain y where sf'': "step_fraction [''a''] [''a'', ''b'', ''a''] = Inr y"
    and ret'': "final_output run_a = None \<or> (None :: StringEvaluator option) = None \<longrightarrow>
        (\<exists>rs. compare_outputs run_a example_aba no_inputs None = Inr rs \<and>
              score (rs ! 1) = PyFloat y)"
    by (elim exE conjE)
  have "step_fraction [''a''] [''a'', ''b'', ''a''] = true_divide 1 3"
    by (simp add: step_fraction_def eval_nat_numeral)
  with sf'' have y: "y = 6004799503160661 / 18014398509481984"
    by (metis sum.inject(2) true_divide_one_third)
  from ret'' none1 obtain rs'' where
    rs'': "compare_outputs run_a example_aba no_inputs None = Inr rs''"
    and s'': "score (rs'' ! 1) = PyFloat y"
    by (elim impE exE conjE)
  from rs rs' rs'' s s' s'' show ?thesis
    unfolding x x' y by (intro exI [of _ rs] exI [of _ rs'] exI [of _ rs'']) simp
qed

section \<open>The judge without question\<close>

text \<open>
  Claim C3. Whenever the chat model replies with a text, \<^verbatim>\<open>_evaluate_strings\<close> of
  \<open>QAMathEvaluator\<close> returns a result and raises nothing; its score is 1 exactly when
  the reply begins with \<open>CORRECT\<close> and 0 for every other reply, the empty one included.
\<close>

theorem qa_math_verdict:
  assumes "eval_chain ref prediction = Inr (reply, runs)"
  shows "\<exists>res. evaluate_strings_QAMath eval_chain prediction ref = Inr (res, runs) \<and>
           (res ''score'' = Some (PyInt 1) \<longleftrightarrow> prefix ''CORRECT'' reply) \<and>
           (\<not> prefix ''CORRECT'' reply \<longrightarrow> res ''score'' = Some (PyInt 0)) \<and>
           (reply = [] \<longrightarrow> res ''score'' = Some (PyInt 0))"
  using assms
  by (auto simp: evaluate_strings_QAMath_def startswith_iff_prefix)

theorem qa_math_verdict_witness:
  "(\<exists>res. evaluate_strings_QAMath (stub_chain ''CORRECT because equal'') ''42'' ''42'' =
            Inr (res, [7]) \<and> res ''score'' = Some (PyInt 1)) \<and>
   (\<exists>res. evaluate_strings_QAMath (stub_chain ''INCORRECT'') ''42'' ''42'' =
            Inr (res, [7]) \<and> res ''score'' = Some (PyInt 0)) \<and>
   (\<exists>res. evaluate_strings_QAMath (stub_chain '''') ''42'' ''42'' =
            Inr (res, [7]) \<and> res ''score'' = Some (PyInt 0))"
proof -
  have a: "stub_chain ''CORRECT because equal'' ''42'' ''42'' = Inr (''CORRECT because equal'', [7])"
    and b: "stub_chain ''INCORRECT'' ''42'' ''42'' = Inr (''INCORRECT'', [7])"
    and c: "stub_chain '''' ''42'' ''42'' = Inr ('''', [7])"
    by (simp_all add: stub_chain_def)
  show ?thesis
    using qa_math_verdict [of "stub_chain ''CORRECT because equal''" "''42''" "''42''", OF a]
      qa_math_verdict [of "stub_chain ''INCORRECT''" "''42''" "''42''", OF b]
      qa_math_verdict [of "stub_chain ''''" "''42''" "''42''", OF c]
    by auto
qed

section \<open>Empty expected steps\<close>

text \<open>
  Claim C4, as stated, fails: there is no emptiness guard and no dedicated error. On a run
  with one step and an example whose expected steps are empty, the trajectory score is
  computed first, the division is reached, and the error returned is the
  \<^verbatim>\<open>ZeroDivisionError\<close> of the division itself.
\<close>

theorem empty_expected_reaches_division:
  "expected_steps example_empty = Some [] \<and>
   trajectory_score (resolved_order_matters example_empty) [''a''] [] = 0 \<and>
   step_fraction [''a''] [] = Inl ZeroDivisionError \<and>
   compare_outputs run_a example_empty no_inputs None = Inl ZeroDivisionError"
  by (simp add: compare_outputs_def run_a_steps example_empty_def step_fraction_eq
        trajectory_score_def resolved_order_matters_def)

text \<open>
  Claim C4, amended. For every input that carries a step sequence and whose expected steps
  are empty, the comparator returns no result: the step-count-ratio division is reached and
  raises \<^verbatim>\<open>ZeroDivisionError\<close>, whatever the state fields, the output and the judge are.
\<close>

theorem empty_expected_zero_division:
  assumes "extract_actual_steps ro = Inr actual" and "expected_steps eo = Some []"
  shows "step_fraction actual [] = Inl ZeroDivisionError \<and>
         compare_outputs ro eo ri qa = Inl ZeroDivisionError"
  using assms by (simp add: compare_outputs_def step_fraction_eq)

theorem empty_expected_zero_division_witness:
  "extract_actual_steps run_a = Inr [''a''] \<and> expected_steps example_empty = Some [] \<and>
   compare_outputs run_a example_empty no_inputs None = Inl ZeroDivisionError"
  using empty_expected_zero_division [OF run_a_steps example_empty_expected, of no_inputs None]
  by (simp add: run_a_steps example_empty_expected)

section \<open>Missing step sequence\<close>

text \<open>
  Claim C5. For every run-outputs record with neither \<^verbatim>\<open>intermediate_steps\<close> nor
  \<^verbatim>\<open>actual_steps\<close>, the comparator returns the \<^verbatim>\<open>ValueError\<close> whose message names both
  fields, and so does \<^verbatim>\<open>evaluate_run\<close> on any example; with no example at all
  \<^verbatim>\<open>evaluate_run\<close> still returns a \<^verbatim>\<open>ValueError\<close>. No result list is returned.
\<close>

theorem missing_steps_rejected:
  assumes "intermediate_steps ro = None" and "actual_steps ro = None"
  shows "compare_outputs ro eo ri qa = Inl (ValueError missing_steps_message) \<and>
         evaluate_run self \<lparr>outputs = Some ro, inputs = ri\<rparr> (Some ex) =
           Inl (ValueError missing_steps_message) \<and>
         (\<forall>example. \<exists>msg. evaluate_run self \<lparr>outputs = Some ro, inputs = ri\<rparr> example =
           Inl (ValueError msg)) \<and>
         sublist ''intermediate_steps'' missing_steps_message \<and>
         sublist ''actual_steps'' missing_steps_message"
  using assms missing_steps_message_names_fields
  by (auto simp: compare_outputs_def extract_actual_steps_def evaluate_run_def
           split: option.splits)

theorem missing_steps_rejected_witness:
  "intermediate_steps run_no_steps = None \<and> actual_steps run_no_steps = None \<and>
   compare_outputs run_no_steps example_ab_unordered no_inputs None =
     Inl (ValueError missing_steps_message) \<and>
   evaluate_run judge_none \<lparr>outputs = Some run_no_steps, inputs = no_inputs\<rparr>
     (Some \<lparr>example_outputs_of = Some example_ab_unordered\<rparr>) =
     Inl (ValueError missing_steps_message)"
proof -
  have a: "intermediate_steps run_no_steps = None" and b: "actual_steps run_no_steps = None"
    by (simp_all add: run_no_steps_def)
  show ?thesis
    using missing_steps_rejected [OF a b, of example_ab_unordered no_inputs None judge_none
        "\<lparr>example_outputs_of = Some example_ab_unordered\<rparr>"]
    by (simp add: a b)
qed

section \<open>Missing reference answer\<close>

text \<open>
  Claim C6. When the run outputs hold an \<^verbatim>\<open>output\<close>, a judge is supplied and the example
  outputs hold no \<^verbatim>\<open>reference\<close>, the comparator never returns results. On inputs that
  satisfy the data model's invariants (a step sequence, non-empty expected steps) the error
  is the \<^verbatim>\<open>KeyError\<close> that carries the name of the missing field, \<open>reference\<close>, for
  either kind of judge.
\<close>

theorem missing_reference_rejected:
  assumes "final_output ro = Some out" and "reference eo = None"
  shows "(\<exists>err. compare_outputs ro eo ri (Some judge) = Inl err) \<and>
         (extract_actual_steps ro = Inr a \<and> expected_steps eo = Some e \<and> e \<noteq> [] \<longrightarrow>
            compare_outputs ro eo ri (Some judge) = Inl (KeyError ''reference''))"
  using output_results_no_reference [OF assms, of ri judge]
  by (auto dest: compare_outputs_output_error intro: compare_outputs_output_error_valid)

theorem missing_reference_rejected_witness:
  "final_output run_with_output = Some ''42'' \<and> reference example_ab_unordered = None \<and>
   compare_outputs run_with_output example_ab_unordered inputs_with_question
     (Some (QAMathEvaluator (stub_chain ''CORRECT''))) = Inl (KeyError ''reference'') \<and>
   compare_outputs run_with_output example_ab_unordered inputs_with_question
     (Some (LoadedEvaluator stub_grader)) = Inl (KeyError ''reference'')"
proof -
  have o: "final_output run_with_output = Some ''42''"
    by (simp add: run_with_output_def)
  have r: "reference example_ab_unordered = None"
    by (simp add: example_ab_unordered_def)
  show ?thesis
    using missing_reference_rejected [OF o r, of inputs_with_question
        "QAMathEvaluator (stub_chain ''CORRECT'')" "[''a'', ''b'']" "[''a'', ''b'']"]
      missing_reference_rejected [OF o r, of inputs_with_question
        "LoadedEvaluator stub_grader" "[''a'', ''b'']" "[''a'', ''b'']"]
    by (simp add: o r run_with_output_steps example_ab_unordered_expected)
qed

section \<open>Judging mode none\<close>

text \<open>
  Claim C7. The constructor called with mode \<open>none\<close> and a model handle returns the
  \<^verbatim>\<open>ValueError\<close> of the conflicting configuration, without any evaluation call; called
  with mode \<open>none\<close> and no handle it returns an evaluator without judge, for which the
  output facet adds nothing and no result of \<^verbatim>\<open>evaluate_run\<close> is keyed \<open>correctness\<close>.
\<close>

theorem none_mode_configuration:
  "init ext (Some llm) ''none'' = Inl (ValueError none_with_llm_message) \<and>
   init ext None ''none'' = Inr \<lparr>qa_evaluator = None, output_evaluation = ''none''\<rparr> \<and>
   (\<forall>self. init ext None ''none'' = Inr self \<longrightarrow>
      output_results ro eo ri (qa_evaluator self) = Inr [] \<and>
      (\<forall>rs. evaluate_run self run example = Inr rs \<longrightarrow>
         (\<forall>r \<in> set rs. key r \<noteq> ''correctness'')))"
proof (intro conjI allI impI)
  show "init ext (Some llm) ''none'' = Inl (ValueError none_with_llm_message)"
    by (simp add: init_def)
  show "init ext None ''none'' = Inr \<lparr>qa_evaluator = None, output_evaluation = ''none''\<rparr>"
    by (simp add: init_def)
next
  fix self
  assume "init ext None ''none'' = Inr self"
  then have q: "qa_evaluator self = None"
    by (auto simp: init_def)
  show "output_results ro eo ri (qa_evaluator self) = Inr []"
    by (simp add: q output_results_skip)
  fix rs
  assume "evaluate_run self run example = Inr rs"
  from evaluate_run_InrD [OF this] q
  obtain ro' eo' where "outputs run = Some ro'"
    and "compare_outputs ro' eo' (inputs run) None = Inr rs"
    by auto
  from this(2) show "\<forall>r \<in> set rs. key r \<noteq> ''correctness''"
    by (rule correctness_key_only_from_judge)
qed

theorem none_mode_configuration_witness:
  "init stub_externals (Some ()) ''none'' = Inl (ValueError none_with_llm_message) \<and>
   (\<exists>self rs. init stub_externals None ''none'' = Inr self \<and>
      evaluate_run self run_record (Some example_record) = Inr rs \<and>
      length rs = 2 \<and> (\<forall>r \<in> set rs. key r \<noteq> ''correctness''))"
proof -
  note t = none_mode_configuration [of stub_externals "()" run_with_output
      example_with_reference inputs_with_question run_record "Some example_record"]
  from t have i: "init stub_externals None ''none'' =
      Inr \<lparr>qa_evaluator = None, output_evaluation = ''none''\<rparr>"
    by simp
  with t evaluate_run_record_none show ?thesis
    by auto
qed

section \<open>Identical and permuted trajectories\<close>

text \<open>
  Claim C8. In every result list the comparator returns, the trajectory score is 1 when the
  actual and expected sequences are identical, whatever \<^verbatim>\<open>order_matters\<close> is; when they
  are permutations of each other but not identical, it is 1 with \<^verbatim>\<open>order_matters\<close> false
  and 0 with \<^verbatim>\<open>order_matters\<close> true or absent.
\<close>

theorem identical_and_permuted_trajectories:
  assumes "extract_actual_steps ro = Inr a" and "expected_steps eo = Some e"
    and "compare_outputs ro eo ri qa = Inr rs"
  shows "(a = e \<longrightarrow> score (rs ! 0) = PyInt 1) \<and>
         (mset a = mset e \<and> a \<noteq> e \<longrightarrow>
            (order_matters eo = Some False \<longrightarrow> score (rs ! 0) = PyInt 1) \<and>
            (order_matters eo = Some True \<or> order_matters eo = None \<longrightarrow>
               score (rs ! 0) = PyInt 0))"
proof -
  have s: "score (rs ! 0) = PyInt (trajectory_score (resolved_order_matters eo) a e)"
    by (simp only: compare_outputs_first [OF assms] EvaluationResult.simps)
  show ?thesis
    unfolding s by (auto simp: trajectory_score_spec resolved_order_matters_def)
qed

theorem identical_and_permuted_trajectories_witness:
  "(\<exists>rs. compare_outputs run_ba example_ba_default no_inputs None = Inr rs \<and>
          score (rs ! 0) = PyInt 1) \<and>
   (\<exists>rs. compare_outputs run_ba example_ba_unordered no_inputs None = Inr rs \<and>
          score (rs ! 0) = PyInt 1) \<and>
   (\<exists>rs. compare_outputs run_ba example_ab_unordered no_inputs None = Inr rs \<and>
          score (rs ! 0) = PyInt 1) \<and>
   (\<exists>rs. compare_outputs run_ba example_ab_ordered no_inputs None = Inr rs \<and>
          score (rs ! 0) = PyInt 0) \<and>
   (\<exists>rs. compare_outputs run_ba example_ab_default no_inputs None = Inr rs \<and>
          score (rs ! 0) = PyInt 0)"
proof -
  have n: "final_output run_ba = None \<or> (None :: StringEvaluator option) = None"
    by simp
  have e1: "expected_steps example_ba_default = Some [''b'', ''a'']"
    and e2: "expected_steps example_ba_unordered = Some [''b'', ''a'']"
    and e4: "expected_steps example_ab_ordered = Some [''a'', ''b'']"
    and e5: "expected_steps example_ab_default = Some [''a'', ''b'']"
    by (simp_all add: example_ba_default_def example_ba_unordered_def example_ab_ordered_def
          example_ab_default_def)
  obtain r1 where r1: "compare_outputs run_ba example_ba_default no_inputs None = Inr r1"
    using compare_outputs_returns [OF run_ba_steps e1 _ n] by auto
  obtain r2 where r2: "compare_outputs run_ba example_ba_unordered no_inputs None = Inr r2"
    using compare_outputs_returns [OF run_ba_steps e2 _ n] by auto
  obtain r3 where r3: "compare_outputs run_ba example_ab_unordered no_inputs None = Inr r3"
    using compare_outputs_returns [OF run_ba_steps example_ab_unordered_expected _ n] by auto
  obtain r4 where r4: "compare_outputs run_ba example_ab_ordered no_inputs None = Inr r4"
    using compare_outputs_returns [OF run_ba_steps e4 _ n] by auto
  obtain r5 where r5: "compare_outputs run_ba example_ab_default no_inputs None = Inr r5"
    using compare_outputs_returns [OF run_ba_steps e5 _ n] by auto
  have "score (r1 ! 0) = PyInt 1"
    using identical_and_permuted_trajectories [OF run_ba_steps e1 r1] by simp
  moreover have "score (r2 ! 0) = PyInt 1"
    using identical_and_permuted_trajectories [OF run_ba_steps e2 r2] by simp
  moreover have "score (r3 ! 0) = PyInt 1"
    using identical_and_permuted_trajectories [OF run_ba_steps example_ab_unordered_expected r3]
    by (simp add: example_ab_unordered_def)
  moreover have "score (r4 ! 0) = PyInt 0"
    using identical_and_permuted_trajectories [OF run_ba_steps e4 r4]
    by (simp add: example_ab_ordered_def)
  moreover have "score (r5 ! 0) = PyInt 0"
    using identical_and_permuted_trajectories [OF run_ba_steps e5 r5]
    by (simp add: example_ab_default_def)
  ultimately show ?thesis
    using r1 r2 r3 r4 r5 by simp
qed

section \<open>Observations\<close>

text \<open>
  Claim C9. Two run-outputs records whose \<^verbatim>\<open>intermediate_steps\<close> carry the same sequence
  of tool identifiers yield the same extracted steps, whatever the observations (and the
  other fields of the actions) are. If the records also agree on state and output, the
  comparator gives the same outcome for both; and in any case, whenever it returns for both,
  the trajectory-correctness and step-count-ratio entries are equal.
\<close>

theorem observations_do_not_influence_scores:
  assumes "intermediate_steps ro = Some steps" and "intermediate_steps ro' = Some steps'"
    and "map (tool \<circ> fst) steps = map (tool \<circ> fst) steps'"
  shows "extract_actual_steps ro = extract_actual_steps ro' \<and>
     (ro_state ro = ro_state ro' \<and> final_output ro = final_output ro' \<longrightarrow>
        compare_outputs ro eo ri qa = compare_outputs ro' eo ri qa) \<and>
     (\<forall>rs rs'. compare_outputs ro eo ri qa = Inr rs \<and>
               compare_outputs ro' eo ri' qa' = Inr rs' \<longrightarrow>
               rs ! 0 = rs' ! 0 \<and> rs ! 1 = rs' ! 1)"
proof (intro conjI allI impI)
  show x: "extract_actual_steps ro = extract_actual_steps ro'"
    using assms by (simp add: extract_actual_steps_def case_prod_unfold comp_def)
  {
    assume same: "ro_state ro = ro_state ro' \<and> final_output ro = final_output ro'"
    then have st: "state_results ro eo = state_results ro' eo"
      by (simp add: state_results_def)
    from same have ou: "output_results ro eo ri qa = output_results ro' eo ri qa"
      by (simp add: output_results_def)
    show "compare_outputs ro eo ri qa = compare_outputs ro' eo ri qa"
      by (simp only: compare_outputs_def x st ou)
  }
  fix rs rs'
  assume r: "compare_outputs ro eo ri qa = Inr rs \<and> compare_outputs ro' eo ri' qa' = Inr rs'"
  then obtain a e where a: "extract_actual_steps ro = Inr a" and e: "expected_steps eo = Some e"
    by (auto elim!: compare_outputs_InrD)
  from a x have a': "extract_actual_steps ro' = Inr a"
    by simp
  from r have r1: "compare_outputs ro eo ri qa = Inr rs"
    and r2: "compare_outputs ro' eo ri' qa' = Inr rs'"
    by simp_all
  show "rs ! 0 = rs' ! 0"
    by (simp only: compare_outputs_first [OF a e r1] compare_outputs_first [OF a' e r2])
  from compare_outputs_second [OF a e r1] compare_outputs_second [OF a' e r2]
  show "rs ! 1 = rs' ! 1"
    by (simp only:)
qed

theorem observations_do_not_influence_scores_witness:
  "extract_actual_steps run_observed = Inr [''a'', ''b''] \<and>
   intermediate_steps run_observed \<noteq> intermediate_steps run_observed_otherwise \<and>
   compare_outputs run_observed example_ab_default no_inputs None =
     compare_outputs run_observed_otherwise example_ab_default no_inputs None"
proof -
  have a: "intermediate_steps run_observed = Some [(action_a, ''7''), (action_b, ''9'')]"
    and b: "intermediate_steps run_observed_otherwise =
             Some [(action_a, ''error''), (action_b, '''')]"
    by (simp_all add: run_observed_def run_observed_otherwise_def)
  have c: "map (tool \<circ> fst) [(action_a, ''7''), (action_b, ''9'')] =
           map (tool \<circ> fst) [(action_a, ''error''), (action_b, '''')]"
    by simp
  have d: "extract_actual_steps run_observed = Inr [''a'', ''b'']"
    by (simp add: extract_actual_steps_def run_observed_def action_a_def action_b_def)
  from observations_do_not_influence_scores [OF a b c, of example_ab_default no_inputs None]
  have "compare_outputs run_observed example_ab_default no_inputs None =
     compare_outputs run_observed_otherwise example_ab_default no_inputs None"
    by (simp add: run_observed_def run_observed_otherwise_def)
  with d show ?thesis
    by (simp add: a b)
qed

section \<open>The question field\<close>

text \<open>
  Claim C10. With an \<^verbatim>\<open>output\<close> in the run outputs and a judge other than
  \<open>QAMathEvaluator\<close>: if the run inputs lack \<^verbatim>\<open>question\<close> the comparator returns an
  error, which is \<^verbatim>\<open>KeyError\<close> of \<open>question\<close> once the earlier stages pass; if the
  question is there, the judge is called on output, reference and that question, its error
  is the comparator's error and its score is the last result. \<open>QAMathEvaluator\<close> does
  not require the input, and with it the outcome does not depend on the run inputs.
\<close>

theorem question_read_only_for_question_aware_judge:
  "(final_output ro = Some out \<and> question ri = None \<longrightarrow>
      (\<exists>err. compare_outputs ro eo ri (Some (LoadedEvaluator f)) = Inl err) \<and>
      (extract_actual_steps ro = Inr a \<and> expected_steps eo = Some e \<and> e \<noteq> [] \<and>
       reference eo = Some ref \<longrightarrow>
         compare_outputs ro eo ri (Some (LoadedEvaluator f)) = Inl (KeyError ''question''))) \<and>
   (final_output ro = Some out \<and> question ri = Some q \<and> reference eo = Some ref \<and>
    extract_actual_steps ro = Inr a \<and> expected_steps eo = Some e \<and> e \<noteq> [] \<longrightarrow>
      (\<forall>err. f out ref q = Inl err \<longrightarrow>
         compare_outputs ro eo ri (Some (LoadedEvaluator f)) = Inl err) \<and>
      (\<forall>res r runs s. f out ref q = Inr (res, r # runs) \<and> res ''score'' = Some s \<longrightarrow>
         (\<exists>rs. compare_outputs ro eo ri (Some (LoadedEvaluator f)) = Inr rs \<and>
            last rs = \<lparr>key = ''correctness'', score = s, comment = None,
                        source_run_id = Some r\<rparr>))) \<and>
   \<not> requires_input \<and>
   compare_outputs ro eo ri (Some (QAMathEvaluator c)) =
     compare_outputs ro eo ri' (Some (QAMathEvaluator c))"
proof (intro conjI impI allI)
  show "\<not> requires_input"
    by (simp add: requires_input_def)
  show "compare_outputs ro eo ri (Some (QAMathEvaluator c)) =
     compare_outputs ro eo ri' (Some (QAMathEvaluator c))"
    by (simp only: compare_outputs_def output_results_QAMath_inputs [of ro eo ri c ri'])
next
  assume h: "final_output ro = Some out \<and> question ri = None"
  then obtain err where "output_results ro eo ri (Some (LoadedEvaluator f)) = Inl err"
    using output_results_no_question by blast
  then show "\<exists>err. compare_outputs ro eo ri (Some (LoadedEvaluator f)) = Inl err"
    by (rule compare_outputs_output_error)
next
  assume h: "final_output ro = Some out \<and> question ri = None"
    and v: "extract_actual_steps ro = Inr a \<and> expected_steps eo = Some e \<and> e \<noteq> [] \<and>
       reference eo = Some ref"
  then have "output_results ro eo ri (Some (LoadedEvaluator f)) = Inl (KeyError ''question'')"
    by (simp add: output_results_def call_judge_no_question)
  with v show "compare_outputs ro eo ri (Some (LoadedEvaluator f)) = Inl (KeyError ''question'')"
    by (simp add: compare_outputs_output_error_valid)
next
  fix err
  assume h: "final_output ro = Some out \<and> question ri = Some q \<and> reference eo = Some ref \<and>
    extract_actual_steps ro = Inr a \<and> expected_steps eo = Some e \<and> e \<noteq> []"
    and f: "f out ref q = Inl err"
  then have "output_results ro eo ri (Some (LoadedEvaluator f)) = Inl err"
    by (simp add: output_results_def call_judge_def)
  with h show "compare_outputs ro eo ri (Some (LoadedEvaluator f)) = Inl err"
    by (simp add: compare_outputs_output_error_valid)
next
  fix res r runs s
  assume h: "final_output ro = Some out \<and> question ri = Some q \<and> reference eo = Some ref \<and>
    extract_actual_steps ro = Inr a \<and> expected_steps eo = Some e \<and> e \<noteq> []"
    and f: "f out ref q = Inr (res, r # runs) \<and> res ''score'' = Some s"
  then have "output_results ro eo ri (Some (LoadedEvaluator f)) =
      Inr [\<lparr>key = ''correctness'', score = s, comment = None, source_run_id = Some r\<rparr>]"
    by (simp add: output_results_def call_judge_def)
  with h show "\<exists>rs. compare_outputs ro eo ri (Some (LoadedEvaluator f)) = Inr rs \<and>
            last rs = \<lparr>key = ''correctness'', score = s, comment = None,
                        source_run_id = Some r\<rparr>"
    by (simp add: compare_outputs_InrI)
qed

theorem question_read_only_for_question_aware_judge_witness:
  "compare_outputs run_with_output example_with_reference no_inputs
     (Some (LoadedEvaluator stub_grader)) = Inl (KeyError ''question'') \<and>
   (\<exists>rs. compare_outputs run_with_output example_with_reference inputs_with_question
            (Some (LoadedEvaluator stub_grader)) = Inr rs \<and>
          last rs = \<lparr>key = ''correctness'', score = PyInt 1, comment = None,
                      source_run_id = Some 18\<rparr>) \<and>
   compare_outputs run_with_output example_with_reference no_inputs
     (Some (QAMathEvaluator (stub_chain ''CORRECT''))) =
   compare_outputs run_with_output example_with_reference inputs_with_question
     (Some (QAMathEvaluator (stub_chain ''CORRECT'')))"
proof -
  have o: "final_output run_with_output = Some ''42''"
    and r: "reference example_with_reference = Some ''42''"
    and q0: "question no_inputs = None"
    and q1: "question inputs_with_question = Some ''what is 6 times 7?''"
    by (simp_all add: run_with_output_def example_with_reference_def no_inputs_def
          inputs_with_question_def)
  have g: "stub_grader ''42'' ''42'' ''what is 6 times 7?'' =
      Inr ([''score'' \<mapsto> PyInt 1], [18])"
    by (simp add: stub_grader_def)
  note t0 = question_read_only_for_question_aware_judge [of run_with_output "''42''" no_inputs
      example_with_reference stub_grader "[''a'', ''b'']" "[''a'', ''b'']" "''42''"
      "''what is 6 times 7?''" "stub_chain ''CORRECT''" inputs_with_question]
  note t1 = question_read_only_for_question_aware_judge [of run_with_output "''42''"
      inputs_with_question example_with_reference stub_grader "[''a'', ''b'']" "[''a'', ''b'']"
      "''42''" "''what is 6 times 7?''" "stub_chain ''CORRECT''" no_inputs]
  from t0 have a: "compare_outputs run_with_output example_with_reference no_inputs
     (Some (LoadedEvaluator stub_grader)) = Inl (KeyError ''question'')"
    by (simp add: o r q0 run_with_output_steps example_with_reference_expected)
  from t0 have c: "compare_outputs run_with_output example_with_reference no_inputs
     (Some (QAMathEvaluator (stub_chain ''CORRECT''))) =
   compare_outputs run_with_output example_with_reference inputs_with_question
     (Some (QAMathEvaluator (stub_chain ''CORRECT'')))"
    by simp
  from t1 have b: "\<exists>rs. compare_outputs run_with_output example_with_reference
            inputs_with_question (Some (LoadedEvaluator stub_grader)) = Inr rs \<and>
          last rs = \<lparr>key = ''correctness'', score = PyInt 1, comment = None,
                      source_run_id = Some 18\<rparr>"
    by (simp add: o r q1 g run_with_output_steps example_with_reference_expected)
  from a b c show ?thesis
    by simp
qed

end
